theory Spec2Isabelle
  imports Complex_Main
begin

section \<open>Python text and numbers\<close>

text \<open>
  Text is a list of 8-bit characters and is taken to be ASCII: case conversion, the
  whitespace class and the digit class are the ASCII ones.  A Python \<open>float\<close> is modelled
  by the rational number it denotes (every finite binary64 value is a rational; NaN and
  the infinities are outside the model).  Fixed-precision formatting (\<open>'%.6f'\<close>,
  \<open>'{:20.10f}'\<close>, \<open>'{:.0f}'\<close>) is computed from the exact value, rounding half to even, as
  CPython does.  Operations that round to binary64 (\<open>float(s)\<close>, \<open>str(x)\<close>, sums, division)
  are parameters of the functions that use them.
\<close>

datatype error =
    ValueError string
  | TypeError string
  | IndexError string
  | KeyError string
  | IOError string
  | AttributeError string
  | FileNotFoundError string
  | InputError string

definition is_space :: "char \<Rightarrow> bool" where
  \<comment> \<open>\<open>str.isspace\<close> on ASCII: space, \<open>\t \n \v \f \r\<close> and the separators \<open>0x1c..0x1f\<close>\<close>
  "is_space c = (c \<in> set [CHR '' '', CHR 0x09, CHR 0x0A, CHR 0x0B, CHR 0x0C, CHR 0x0D,
                            CHR 0x1C, CHR 0x1D, CHR 0x1E, CHR 0x1F])"

definition is_digit :: "char \<Rightarrow> bool" where
  "is_digit c = (c \<in> set ''0123456789'')"

definition is_alpha :: "char \<Rightarrow> bool" where
  "is_alpha c = (c \<in> set ''abcdefghijklmnopqrstuvwxyzABCDEFGHIJKLMNOPQRSTUVWXYZ'')"

definition lower_char :: "char \<Rightarrow> char" where
  "lower_char c = (case map_of (zip ''ABCDEFGHIJKLMNOPQRSTUVWXYZ'' ''abcdefghijklmnopqrstuvwxyz'') c
                   of Some d \<Rightarrow> d | None \<Rightarrow> c)"

definition upper_char :: "char \<Rightarrow> char" where
  "upper_char c = (case map_of (zip ''abcdefghijklmnopqrstuvwxyz'' ''ABCDEFGHIJKLMNOPQRSTUVWXYZ'') c
                   of Some d \<Rightarrow> d | None \<Rightarrow> c)"

definition lower :: "string \<Rightarrow> string" where
  "lower s = map lower_char s"

definition upper :: "string \<Rightarrow> string" where
  "upper s = map upper_char s"

definition strip_chars :: "char list \<Rightarrow> string \<Rightarrow> string" where
  \<comment> \<open>\<open>s.strip(chars)\<close>: drops from both ends every character that occurs in \<open>chars\<close>\<close>
  "strip_chars cs s = rev (dropWhile (\<lambda>c. c \<in> set cs) (rev (dropWhile (\<lambda>c. c \<in> set cs) s)))"

definition strip :: "string \<Rightarrow> string" where
  \<comment> \<open>\<open>s.strip()\<close>\<close>
  "strip s = rev (dropWhile is_space (rev (dropWhile is_space s)))"

fun split_ws :: "string \<Rightarrow> string \<Rightarrow> string list" where
  \<comment> \<open>\<open>s.split()\<close>, with the word read so far as first argument\<close>
  "split_ws w [] = (if w = [] then [] else [w])"
| "split_ws w (c # s) =
     (if is_space c then (if w = [] then split_ws [] s else w # split_ws [] s)
      else split_ws (w @ [c]) s)"

definition split :: "string \<Rightarrow> string list" where
  "split s = split_ws [] s"

fun split_at :: "char \<Rightarrow> string \<Rightarrow> string \<Rightarrow> string list" where
  \<comment> \<open>\<open>s.split(c)\<close> for a one-character separator, with the field read so far\<close>
  "split_at d w [] = [w]"
| "split_at d w (c # s) = (if c = d then w # split_at d [] s else split_at d (w @ [c]) s)"

definition split_on :: "char \<Rightarrow> string \<Rightarrow> string list" where
  "split_on d s = split_at d [] s"


definition rjust :: "nat \<Rightarrow> string \<Rightarrow> string" where
  "rjust w s = replicate (w - length s) CHR '' '' @ s"


definition digit_char :: "int \<Rightarrow> char" where
  "digit_char d = ''0123456789'' ! nat (d mod 10)"

function str_digits :: "int \<Rightarrow> string" where
  \<comment> \<open>the decimal digits of a non-negative integer\<close>
  "str_digits n = (if n < 10 then [digit_char n] else str_digits (n div 10) @ [digit_char n])"
  by pat_completeness auto
termination
  by (relation "measure nat") auto

declare str_digits.simps [simp del]

definition str_int :: "int \<Rightarrow> string" where
  \<comment> \<open>\<open>str(i)\<close> of a Python int\<close>
  "str_int i = (if i < 0 then CHR ''-'' # str_digits (- i) else str_digits i)"

definition round_half_even :: "rat \<Rightarrow> int" where
  \<comment> \<open>the integer nearest to a non-negative value, ties to the even one\<close>
  "round_half_even q =
     (let f = \<lfloor>q\<rfloor>; r = q - of_int f
      in if r < 1 / 2 then f else if 1 / 2 < r then f + 1
         else if even f then f else f + 1)"

definition fmt_f :: "nat \<Rightarrow> nat \<Rightarrow> rat \<Rightarrow> string" where
  \<comment> \<open>\<open>'%w.pf' % x\<close>, the same as \<open>'{:w.pf}'.format(x)\<close>\<close>
  "fmt_f w p x =
     (let n = round_half_even (\<bar>x\<bar> * 10 ^ p);
          ds = str_digits n;
          ds' = replicate (Suc p - length ds) CHR ''0'' @ ds;
          ip = take (length ds' - p) ds';
          fp = drop (length ds' - p) ds'
      in rjust w ((if x < 0 then ''-'' else []) @ ip @ (if p = 0 then [] else CHR ''.'' # fp)))"

section \<open>Structures\<close>

text \<open>
  The toolkit's \<open>Atoms\<close> container, with the fields this code reads: one symbol, position,
  initial charge, initial magnetic moment and mass per atom, three cell vectors and three
  periodic-boundary flags.
\<close>

record atoms =
  symbols :: "string list"
  positions :: "rat list list"
  cell :: "rat list list"
  pbc :: "bool list"
  initial_charges :: "rat list"
  initial_magmoms :: "rat list"
  masses :: "rat list"

section \<open>The CRYSTAL calculator\<close>

datatype xc_functional = XcStr string | XcPair string string

datatype otherkey = Key string | Keys "string list"

datatype kitem = KInt int | KStr string

datatype kpoints =
    KFloat rat
  | KList "rat list list"
  | KTuple "kitem list"

record parameters =
  p_basis :: string
  p_xc :: xc_functional
  p_spinpol :: bool
  p_guess :: bool
  p_kpts :: "kpoints option"
  p_isp :: int
  p_smearing :: "(string \<times> rat) option"
  p_otherkeys :: "otherkey list"

record PointChargePotential =
  mmcharges :: "rat list option"
  mmpositions :: "rat list list option"
  pc_directory :: string

record CRYSTAL =
  calc_params :: parameters
  calc_atoms :: "atoms option"
  pcpot :: "PointChargePotential option"
  directory :: string
  self_kpts :: "kpoints option"

text \<open>What the code reads from its surroundings: the file \<open>basis\<close> in the calculator's
  directory (\<open>None\<close> when it does not exist), whether \<open>fort.20\<close> exists, and the text of
  \<open>str(width / Hartree)\<close>.\<close>

record os_env =
  basis_file :: "string list option"
  fort20_isfile :: bool
  str_over_hartree :: "rat \<Rightarrow> string"

definition embed :: "CRYSTAL \<Rightarrow> rat list option \<Rightarrow> CRYSTAL" where
  "embed c mm = c\<lparr>pcpot := Some \<lparr>mmcharges = mm, mmpositions = None, pc_directory = directory c\<rparr>\<rparr>"

definition set_positions :: "PointChargePotential \<Rightarrow> rat list list \<Rightarrow> PointChargePotential" where
  "set_positions pc ps = pc\<lparr>mmpositions := Some ps\<rparr>"

definition set_charges :: "PointChargePotential \<Rightarrow> rat list option \<Rightarrow> PointChargePotential" where
  "set_charges pc qs = pc\<lparr>mmcharges := qs\<rparr>"

definition mmcharge_line :: "rat \<Rightarrow> rat \<Rightarrow> rat \<Rightarrow> rat \<Rightarrow> string" where
  \<comment> \<open>\<open>'%12.6f %12.6f %12.6f %12.6f \n' % (x, y, z, charge)\<close>\<close>
  "mmcharge_line x y z charge =
     fmt_f 12 6 x @ '' '' @ fmt_f 12 6 y @ '' '' @ fmt_f 12 6 z @ '' '' @ fmt_f 12 6 charge
     @ '' '' @ [CHR 0x0A]"

fun charge_lines :: "(rat list \<times> rat) list \<Rightarrow> string list \<times> error option" where
  \<comment> \<open>the loop of \<open>write_mmcharges\<close> over \<open>zip(mmpositions, mmcharges)\<close>\<close>
  "charge_lines [] = ([], None)"
| "charge_lines ((pos, charge) # rest) =
     (case pos of
        [x, y, z] \<Rightarrow> (let (ls, e) = charge_lines rest in (mmcharge_line x y z charge # ls, e))
      | _ \<Rightarrow> ([], Some (ValueError ''unpack'')))"

definition count_line :: "rat list \<Rightarrow> string" where
  \<comment> \<open>\<open>str(len(self.mmcharges)) + ' \n'\<close>\<close>
  "count_line qs = str_int (int (length qs)) @ '' '' @ [CHR 0x0A]"

definition write_mmcharges :: "PointChargePotential \<Rightarrow> string list option \<times> error option" where
  \<comment> \<open>the chunks written to the charge file (\<open>None\<close>: no file is opened) and the exception\<close>
  "write_mmcharges pc =
     (case mmcharges pc of
        None \<Rightarrow> (None, None)
      | Some qs \<Rightarrow>
          (case mmpositions pc of
             None \<Rightarrow> (Some [count_line qs], Some (TypeError ''zip argument #1 must support iteration''))
           | Some ps \<Rightarrow> (let (ls, e) = charge_lines (zip ps qs) in (Some (count_line qs # ls), e))))"

record wstate =
  calc :: CRYSTAL
  outfile :: "string list"
  pointchg_inp :: "string list option"
  raised :: "error option"

definition wr :: "string \<Rightarrow> wstate \<Rightarrow> wstate" where
  \<comment> \<open>\<open>outfile.write(s)\<close>\<close>
  "wr s st = st\<lparr>outfile := outfile st @ [s]\<rparr>"

definition raise :: "error \<Rightarrow> wstate \<Rightarrow> wstate" where
  "raise e st = st\<lparr>raised := Some e\<rparr>"

definition unless_raised :: "(wstate \<Rightarrow> wstate) \<Rightarrow> wstate \<Rightarrow> wstate" where
  \<comment> \<open>a statement is not reached once an exception has been raised\<close>
  "unless_raised f st = (case raised st of None \<Rightarrow> f st | Some e \<Rightarrow> st)"

definition nl :: string where
  "nl = [CHR 0x0A]"

definition write_block1 :: "wstate \<Rightarrow> wstate" where
  "write_block1 st =
     (let st = wr (''Single point + Gradient crystal calculation '' @ nl) st;
          st = wr (''EXTERNAL '' @ nl) st
      in case pcpot (calc st) of
           None \<Rightarrow> st
         | Some pc \<Rightarrow>
             (let st = wr (''POINTCHG '' @ nl) st;
                  (f, e) = write_mmcharges pc
              in st\<lparr>pointchg_inp := f, raised := e\<rparr>))"

definition write_block2 :: "os_env \<Rightarrow> wstate \<Rightarrow> wstate" where
  "write_block2 env st =
     (let p = calc_params (calc st)
      in if p_basis p = ''custom'' then
           (let st = wr (''END '' @ nl) st
            in case basis_file env of
                 None \<Rightarrow> raise (FileNotFoundError ''basis'') st
               | Some basis_lines \<Rightarrow>
                   (let st = st\<lparr>outfile := outfile st @ basis_lines\<rparr>;
                        st = wr (''99 0 '' @ nl) st
                    in wr (''END '' @ nl) st))
         else
           (let st = wr (''BASISSET '' @ nl) st
            in wr (upper (p_basis p) @ nl) st))"

definition any_nonzero :: "rat list \<Rightarrow> bool" where
  \<comment> \<open>\<open>array.any()\<close>\<close>
  "any_nonzero xs = (\<exists>x \<in> set xs. x \<noteq> 0)"

definition set_spinpol :: "wstate \<Rightarrow> wstate" where
  \<comment> \<open>\<open>p.p_spinpol = True\<close>, on the calculator's own parameters\<close>
  "set_spinpol st = st\<lparr>calc := (calc st)\<lparr>calc_params := (calc_params (calc st))\<lparr>p_spinpol := True\<rparr>\<rparr>\<rparr>"

definition write_hamiltonian :: "wstate \<Rightarrow> wstate" where
  "write_hamiltonian st =
     (case calc_atoms (calc st) of
        None \<Rightarrow> raise (AttributeError ''get_initial_magnetic_moments'') st
      | Some a \<Rightarrow>
          (let st = (if any_nonzero (initial_magmoms a) then set_spinpol st else st);
               p = calc_params (calc st)
           in if p_xc p = XcStr ''HF'' then
                (if p_spinpol p then wr (''UHF '' @ nl) st else wr (''RHF '' @ nl) st)
              else if p_xc p = XcStr ''MP2'' then
                wr (''ENDMP2 '' @ nl) (wr (''MP2 '' @ nl) st)
              else
                (let st = wr (''DFT '' @ nl) st;
                     st = (case p_xc p of
                             XcStr s \<Rightarrow>
                               (let x = (case map_of [(''LDA'', ''EXCHANGE'' @ nl @ ''LDA'' @ nl
                                                         @ ''CORRELAT'' @ nl @ ''VWN''),
                                                      (''PBE'', ''PBEXC'')] s
                                         of Some v \<Rightarrow> v | None \<Rightarrow> s)
                                in wr (upper x @ nl) st)
                           | XcPair x c \<Rightarrow>
                               wr (c @ '' '' @ nl) (wr (''CORRELAT '' @ nl)
                                 (wr (x @ '' '' @ nl) (wr (''EXCHANGE '' @ nl) st))));
                     st = (if p_spinpol p then wr (''SPIN '' @ nl) st else st)
                 in wr (''END '' @ nl) st)))"

definition write_guess :: "os_env \<Rightarrow> wstate \<Rightarrow> wstate" where
  "write_guess env st =
     (if p_guess (calc_params (calc st)) \<and> fort20_isfile env then wr (''GUESSP '' @ nl) st else st)"

definition write_smearing :: "os_env \<Rightarrow> wstate \<Rightarrow> wstate" where
  "write_smearing env st =
     (case p_smearing (calc_params (calc st)) of
        None \<Rightarrow> st
      | Some (kind, width) \<Rightarrow>
          if kind \<noteq> ''Fermi-Dirac'' then raise (ValueError ''Only Fermi-Dirac smearing is allowed.'') st
          else wr (str_over_hartree env width @ '' '' @ nl) (wr (''SMEAR '' @ nl) st))"

fun write_otherkeys :: "otherkey list \<Rightarrow> wstate \<Rightarrow> wstate" where
  "write_otherkeys [] st = st"
| "write_otherkeys (Key k # ks) st = write_otherkeys ks (wr (upper k @ nl) st)"
| "write_otherkeys (Keys l # ks) st =
     write_otherkeys ks (st\<lparr>outfile := outfile st @ map (\<lambda>k. upper k @ nl) l\<rparr>)"

definition effective_kpts :: "bool list \<Rightarrow> kpoints option \<Rightarrow> kpoints option" where
  \<comment> \<open>the value \<open>self.kpts\<close> has before the k-point block\<close>
  "effective_kpts ispbc k =
     (if (\<exists>b \<in> set ispbc. b) then (case k of None \<Rightarrow> Some (KTuple [KInt 1, KInt 1, KInt 1]) | Some v \<Rightarrow> Some v)
      else None)"

fun all_ints :: "kitem list \<Rightarrow> int list option" where
  "all_ints [] = Some []"
| "all_ints (KInt i # ks) = map_option ((#) i) (all_ints ks)"
| "all_ints (KStr s # ks) = None"

definition py_max :: "kitem list \<Rightarrow> error + int" where
  \<comment> \<open>\<open>max(t)\<close> of a tuple: comparing an int with a str raises\<close>
  "py_max ks =
     (case all_ints ks of
        None \<Rightarrow> Inl (TypeError ''not supported between instances of str and int'')
      | Some [] \<Rightarrow> Inl (ValueError ''max() arg is an empty sequence'')
      | Some (i # is) \<Rightarrow> Inr (fold max is i))"

definition str_kitem :: "kitem \<Rightarrow> string" where
  "str_kitem k = (case k of KInt i \<Rightarrow> str_int i | KStr s \<Rightarrow> s)"

definition index_error :: error where
  "index_error = IndexError ''tuple index out of range''"

definition shrink_last_line :: "bool list \<Rightarrow> kitem list \<Rightarrow> wstate \<Rightarrow> wstate" where
  \<comment> \<open>the line of shrinking factors, chosen by \<open>ispbc[2]\<close>, \<open>ispbc[1]\<close>, \<open>ispbc[0]\<close>\<close>
  "shrink_last_line ispbc ks st =
     (case ispbc of
        [p0, p1, p2] \<Rightarrow>
          (if p2 then
             (case ks of
                k0 # k1 # k2 # _ \<Rightarrow>
                  wr (str_kitem k0 @ '' '' @ str_kitem k1 @ '' '' @ str_kitem k2 @ '' '' @ nl) st
              | _ \<Rightarrow> raise index_error st)
           else if p1 then
             (case ks of
                k0 # k1 # _ \<Rightarrow> wr (str_kitem k0 @ '' '' @ str_kitem k1 @ '' 1 '' @ nl) st
              | _ \<Rightarrow> raise index_error st)
           else if p0 then
             (case ks of
                k0 # _ \<Rightarrow> wr (str_kitem k0 @ '' 1 1 '' @ nl) st
              | _ \<Rightarrow> raise index_error st)
           else st)
      | _ \<Rightarrow> raise (IndexError ''pbc'') st)"

definition shrink_line :: string where
  "shrink_line = ''SHRINK  '' @ nl"

definition write_shrink :: "bool list \<Rightarrow> wstate \<Rightarrow> wstate" where
  \<comment> \<open>the block under \<open>if self.kpts is not None\<close>\<close>
  "write_shrink ispbc st =
     (case self_kpts (calc st) of
        None \<Rightarrow> st
      | Some (KFloat d) \<Rightarrow> raise (ValueError ''K-point density definition not allowed.'') st
      | Some (KList l) \<Rightarrow> raise (ValueError ''Explicit K-points definition not allowed.'') st
      | Some (KTuple ks) \<Rightarrow>
          (if ks = [] then raise index_error st
           else case last ks of
             KStr s \<Rightarrow> raise (ValueError ''Shifted Monkhorst-Pack not allowed.'') st
           | KInt i \<Rightarrow>
               (let st = wr shrink_line st
                in case py_max ks of
                     Inl e \<Rightarrow> raise e st
                   | Inr m \<Rightarrow>
                       shrink_last_line ispbc ks
                         (wr (''0 '' @ str_int (p_isp (calc_params (calc st)) * m) @ '' '' @ nl) st))))"

definition write_kpts :: "wstate \<Rightarrow> wstate" where
  "write_kpts st =
     (case calc_atoms (calc st) of
        None \<Rightarrow> raise (AttributeError ''get_pbc'') st
      | Some a \<Rightarrow>
          (let ispbc = pbc a;
               st = st\<lparr>calc := (calc st)\<lparr>self_kpts := effective_kpts ispbc (p_kpts (calc_params (calc st)))\<rparr>\<rparr>
           in write_shrink ispbc st))"

definition write_end :: "wstate \<Rightarrow> wstate" where
  "write_end st = wr (''END '' @ nl) (wr (''GRADCAL '' @ nl) st)"

definition before_kpts :: "os_env \<Rightarrow> CRYSTAL \<Rightarrow> wstate" where
  \<comment> \<open>\<open>write_crystal_in\<close> up to the k-point block\<close>
  "before_kpts env c =
     (let st = \<lparr>calc = c, outfile = [], pointchg_inp = None, raised = None\<rparr>;
          st = write_block1 st;
          st = unless_raised (write_block2 env) st;
          st = unless_raised write_hamiltonian st;
          st = unless_raised (write_guess env) st;
          st = unless_raised (write_smearing env) st
      in unless_raised (write_otherkeys (p_otherkeys (calc_params (calc st)))) st)"

definition write_crystal_in :: "os_env \<Rightarrow> CRYSTAL \<Rightarrow> wstate" where
  "write_crystal_in env c =
     unless_raised write_end (unless_raised write_kpts (before_kpts env c))"

subsection \<open>Example inputs and the predicates of the statements\<close>

definition default_parameters :: parameters where
  "default_parameters = \<lparr>p_basis = ''custom'', p_xc = XcStr ''HF'', p_spinpol = False, p_guess = True,
     p_kpts = None, p_isp = 1, p_smearing = None, p_otherkeys = []\<rparr>"

definition example_env :: os_env where
  "example_env = \<lparr>basis_file = Some [''1 1'' @ nl], fort20_isfile = False,
     str_over_hartree = (\<lambda>w. ''0.0'')\<rparr>"

definition hydrogen :: atoms where
  "hydrogen = \<lparr>symbols = [''H''], positions = [[0, 0, 0]],
     cell = [[0, 0, 0], [0, 0, 0], [0, 0, 0]], pbc = [False, False, False],
     initial_charges = [0], initial_magmoms = [0], masses = [1008 / 1000]\<rparr>"

definition example_calc :: CRYSTAL where
  "example_calc = \<lparr>calc_params = default_parameters, calc_atoms = Some hydrogen, pcpot = None,
     directory = ''.'', self_kpts = None\<rparr>"

definition periodic_calc :: "kpoints option \<Rightarrow> CRYSTAL" where
  "periodic_calc k = example_calc\<lparr>calc_params := default_parameters\<lparr>p_kpts := k\<rparr>,
     calc_atoms := Some (hydrogen\<lparr>pbc := [True, True, True]\<rparr>)\<rparr>"

definition embedded_calc :: "rat list option \<Rightarrow> rat list list \<Rightarrow> CRYSTAL" where
  \<comment> \<open>\<open>pc = calc.embed(mmcharges); pc.set_positions(mmpositions)\<close> on the example calculator\<close>
  "embedded_calc qs ps =
     (let c = embed example_calc qs
      in c\<lparr>pcpot := map_option (\<lambda>pc. set_positions pc ps) (pcpot c)\<rparr>)"

definition unsupported_kpts :: "kpoints option \<Rightarrow> bool" where
  "unsupported_kpts k =
     (case k of
        None \<Rightarrow> False
      | Some (KFloat d) \<Rightarrow> True
      | Some (KList l) \<Rightarrow> True
      | Some (KTuple ks) \<Rightarrow> ks \<noteq> [] \<and> (case last ks of KStr s \<Rightarrow> True | KInt i \<Rightarrow> False))"

definition raises_ValueError :: "wstate \<Rightarrow> bool" where
  "raises_ValueError st = (case raised st of Some (ValueError m) \<Rightarrow> True | _ \<Rightarrow> False)"

text \<open>The \<open>SHRINK\<close> section for a mesh of integers: the keyword, the line \<open>0 isp*max(kpts)\<close>
  and the line of the shrinking factors, which has the first three, two or one entries of the
  mesh according to the last periodic direction, filled up with \<open>1\<close>.\<close>

definition directions_read :: "bool list \<Rightarrow> nat" where
  "directions_read ispbc = (if ispbc ! 2 then 3 else if ispbc ! 1 then 2 else 1)"

definition shrink_factors :: "bool list \<Rightarrow> int list \<Rightarrow> int list" where
  "shrink_factors ispbc ks =
     (if ispbc ! 2 then take 3 ks else if ispbc ! 1 then take 2 ks @ [1] else take 1 ks @ [1, 1])"

definition shrink_section :: "int \<Rightarrow> bool list \<Rightarrow> int list \<Rightarrow> string list" where
  "shrink_section isp ispbc ks =
     [''SHRINK  '' @ nl,
      ''0 '' @ str_int (isp * Max (set ks)) @ '' '' @ nl,
      concat (map (\<lambda>k. str_int k @ '' '') (shrink_factors ispbc ks)) @ nl]"

text \<open>What every step after the first block leaves alone: the file grows at its end, the charge
  file, the atoms, the point-charge potential and the \<open>kpts\<close> parameter stay as they are.\<close>

definition ext :: "wstate \<Rightarrow> wstate \<Rightarrow> bool" where
  "ext st st' = ((\<exists>ys. outfile st' = outfile st @ ys) \<and> pointchg_inp st' = pointchg_inp st
     \<and> calc_atoms (calc st') = calc_atoms (calc st) \<and> pcpot (calc st') = pcpot (calc st)
     \<and> p_kpts (calc_params (calc st')) = p_kpts (calc_params (calc st)))"

definition st0 :: "CRYSTAL \<Rightarrow> wstate" where
  "st0 c = \<lparr>calc = c, outfile = [], pointchg_inp = None, raised = None\<rparr>"

subsection \<open>Properties of the CRYSTAL input writer\<close>

lemma ext_refl: "ext st st" by (simp add: ext_def)
lemma ext_trans [trans]: "ext a b \<Longrightarrow> ext b c \<Longrightarrow> ext a c" by (auto simp: ext_def)
lemma ext_wr: "ext st (wr s st)" by (simp add: ext_def wr_def)
lemma ext_raise: "ext st (raise e st)" by (simp add: ext_def raise_def)
lemma ext_unless: "(\<And>s. ext s (f s)) \<Longrightarrow> ext st (unless_raised f st)"
  by (simp add: unless_raised_def ext_refl split: option.splits)

lemma ext_block2: "ext st (write_block2 env st)"
  by (auto simp: write_block2_def Let_def ext_def wr_def raise_def split: option.splits)

lemma ext_hamiltonian: "ext st (write_hamiltonian st)"
  by (auto simp: write_hamiltonian_def Let_def ext_def wr_def raise_def set_spinpol_def
      split: option.splits xc_functional.splits)

lemma ext_guess: "ext st (write_guess env st)"
  by (auto simp: write_guess_def ext_def wr_def)

lemma ext_smearing: "ext st (write_smearing env st)"
  by (auto simp: write_smearing_def ext_def wr_def raise_def split: option.splits)

lemma ext_otherkeys: "ext st (write_otherkeys ks st)"
proof (induction ks st rule: write_otherkeys.induct)
  case (1 st) show ?case by (simp add: ext_refl)
next
  case (2 k ks st)
  have "ext st (wr (upper k @ nl) st)" by (rule ext_wr)
  with 2 show ?case by (auto intro: ext_trans)
next
  case (3 l ks st)
  have "ext st (st\<lparr>outfile := outfile st @ map (\<lambda>k. upper k @ nl) l\<rparr>)" by (simp add: ext_def)
  with 3 show ?case by (auto intro: ext_trans)
qed



lemma block1_calc: "calc (write_block1 st) = calc st"
  by (simp add: write_block1_def Let_def wr_def split: option.splits prod.splits)

lemma before_kpts_ext: "ext (write_block1 (st0 c)) (before_kpts env c)"
proof -
  define s1 where "s1 = write_block1 (st0 c)"
  define s2 where "s2 = unless_raised (write_block2 env) s1"
  define s3 where "s3 = unless_raised write_hamiltonian s2"
  define s4 where "s4 = unless_raised (write_guess env) s3"
  define s5 where "s5 = unless_raised (write_smearing env) s4"
  define s6 where "s6 = unless_raised (write_otherkeys (p_otherkeys (calc_params (calc s5)))) s5"
  have "ext s1 s2" unfolding s2_def by (rule ext_unless) (rule ext_block2)
  also have "ext s2 s3" unfolding s3_def by (rule ext_unless) (rule ext_hamiltonian)
  also have "ext s3 s4" unfolding s4_def by (rule ext_unless) (rule ext_guess)
  also have "ext s4 s5" unfolding s5_def by (rule ext_unless) (rule ext_smearing)
  also have "ext s5 s6" unfolding s6_def by (rule ext_unless) (rule ext_otherkeys)
  finally have "ext s1 s6" .
  moreover have "before_kpts env c = s6"
    by (simp add: before_kpts_def Let_def s6_def s5_def s4_def s3_def s2_def s1_def st0_def)
  ultimately show ?thesis by (simp add: s1_def)
qed

lemma before_kpts_atoms: "calc_atoms (calc (before_kpts env c)) = calc_atoms c"
  and before_kpts_kpts: "p_kpts (calc_params (calc (before_kpts env c))) = p_kpts (calc_params c)"
  and before_kpts_pcpot: "pcpot (calc (before_kpts env c)) = pcpot c"
proof -
  have e: "ext (write_block1 (st0 c)) (before_kpts env c)" by (rule before_kpts_ext)
  have c0: "calc (write_block1 (st0 c)) = c" by (simp add: block1_calc st0_def)
  show "calc_atoms (calc (before_kpts env c)) = calc_atoms c"
    using e unfolding ext_def c0 by blast
  show "p_kpts (calc_params (calc (before_kpts env c))) = p_kpts (calc_params c)"
    using e unfolding ext_def c0 by blast
  show "pcpot (calc (before_kpts env c)) = pcpot c"
    using e unfolding ext_def c0 by blast
qed

lemma write_kpts_None:
  assumes "calc_atoms (calc st) = Some a" "effective_kpts (pbc a) (p_kpts (calc_params (calc st))) = None"
  shows "raised (write_kpts st) = raised st" "outfile (write_kpts st) = outfile st"
  using assms by (simp_all add: write_kpts_def write_shrink_def)

lemma write_kpts_KFloat:
  assumes "calc_atoms (calc st) = Some a" "effective_kpts (pbc a) (p_kpts (calc_params (calc st))) = Some (KFloat d)"
  shows "raised (write_kpts st) = Some (ValueError ''K-point density definition not allowed.'')"
    "outfile (write_kpts st) = outfile st"
  using assms by (simp_all add: write_kpts_def write_shrink_def raise_def)

lemma write_kpts_KList:
  assumes "calc_atoms (calc st) = Some a" "effective_kpts (pbc a) (p_kpts (calc_params (calc st))) = Some (KList l)"
  shows "raised (write_kpts st) = Some (ValueError ''Explicit K-points definition not allowed.'')"
    "outfile (write_kpts st) = outfile st"
  using assms by (simp_all add: write_kpts_def write_shrink_def raise_def)

lemma write_kpts_empty:
  assumes "calc_atoms (calc st) = Some a" "effective_kpts (pbc a) (p_kpts (calc_params (calc st))) = Some (KTuple [])"
  shows "raised (write_kpts st) = Some index_error" "outfile (write_kpts st) = outfile st"
  using assms by (simp_all add: write_kpts_def write_shrink_def raise_def)

lemma write_kpts_shifted:
  assumes "calc_atoms (calc st) = Some a" "effective_kpts (pbc a) (p_kpts (calc_params (calc st))) = Some (KTuple ks)"
    "ks \<noteq> []" "last ks = KStr s"
  shows "raised (write_kpts st) = Some (ValueError ''Shifted Monkhorst-Pack not allowed.'')"
    "outfile (write_kpts st) = outfile st"
  using assms by (simp_all add: write_kpts_def write_shrink_def raise_def)

lemma shrink_last_line_out: "\<exists>ys. outfile (shrink_last_line ispbc ks st) = outfile st @ ys"
proof -
  have w: "\<And>s. \<exists>ys. outfile (wr s st) = outfile st @ ys" by (simp add: wr_def)
  have r: "\<And>e. \<exists>ys. outfile (raise e st) = outfile st @ ys" by (simp add: raise_def)
  show ?thesis
    unfolding shrink_last_line_def
    by (simp add: w r split: list.split)
qed

lemma write_kpts_shrink:
  assumes "calc_atoms (calc st) = Some a" "effective_kpts (pbc a) (p_kpts (calc_params (calc st))) = Some (KTuple ks)"
    "ks \<noteq> []" "last ks = KInt i"
  shows "\<exists>rest. outfile (write_kpts st) = outfile st @ shrink_line # rest"
proof (cases "py_max ks")
  case (Inl e)
  with assms show ?thesis by (simp add: write_kpts_def write_shrink_def raise_def wr_def)
next
  case (Inr m)
  define st1 where "st1 = st\<lparr>calc := (calc st)\<lparr>self_kpts := Some (KTuple ks)\<rparr>\<rparr>"
  define st2 where "st2 = wr (''0 '' @ str_int (p_isp (calc_params (calc (wr shrink_line st1))) * m) @ '' '' @ nl) (wr shrink_line st1)"
  have "write_kpts st = shrink_last_line (pbc a) ks st2"
    using assms Inr by (simp add: write_kpts_def write_shrink_def st1_def st2_def Let_def)
  moreover obtain ys where "outfile (shrink_last_line (pbc a) ks st2) = outfile st2 @ ys"
    using shrink_last_line_out by blast
  moreover have "outfile st2 = outfile st @ [shrink_line, ''0 '' @ str_int (p_isp (calc_params (calc (wr shrink_line st1))) * m) @ '' '' @ nl]"
    by (simp add: st2_def st1_def wr_def)
  ultimately show ?thesis by simp
qed

lemma write_end_out: "outfile (write_end st) = outfile st @ [''GRADCAL '' @ nl, ''END '' @ nl]"
  and write_end_raised: "raised (write_end st) = raised st"
  by (simp_all add: write_end_def wr_def)

lemma unless_raised_out: "(\<And>s. \<exists>ys. outfile (f s) = outfile s @ ys) \<Longrightarrow> \<exists>ys. outfile (unless_raised f st) = outfile st @ ys"
  by (simp add: unless_raised_def split: option.splits)

lemma charge_lines_ok:
  "\<forall>p \<in> set ps. length p = 3 \<Longrightarrow>
   charge_lines (zip ps qs) = (map (\<lambda>(p, q). mmcharge_line (p ! 0) (p ! 1) (p ! 2) q) (zip ps qs), None)"
proof (induction ps arbitrary: qs)
  case Nil
  show ?case by simp
next
  case (Cons p ps)
  show ?case
  proof (cases qs)
    case Nil
    then show ?thesis by simp
  next
    case (Cons q qs')
    from Cons.prems have "length p = 3" by simp
    then obtain x y z where p: "p = [x, y, z]"
      by (auto simp: length_Suc_conv numeral_3_eq_3)
    from Cons.prems have "\<forall>p \<in> set ps. length p = 3" by simp
    then have "charge_lines (zip ps qs') = (map (\<lambda>(p, q). mmcharge_line (p ! 0) (p ! 1) (p ! 2) q) (zip ps qs'), None)"
      by (rule Cons.IH)
    then show ?thesis using Cons p by simp
  qed
qed

lemma write_mmcharges_ok:
  assumes "mmcharges pc = Some qs" "mmpositions pc = Some ps" "\<forall>p \<in> set ps. length p = 3"
  shows "write_mmcharges pc =
    (Some (count_line qs # map (\<lambda>(p, q). mmcharge_line (p ! 0) (p ! 1) (p ! 2) q) (zip ps qs)), None)"
  using assms by (simp add: write_mmcharges_def charge_lines_ok)


lemma ext_shrink_last_line: "ext st (shrink_last_line ispbc ks st)"
  unfolding shrink_last_line_def
  by (simp add: ext_wr ext_raise ext_refl split: list.split)

lemma ext_self_kpts: "ext st (st\<lparr>calc := (calc st)\<lparr>self_kpts := k\<rparr>\<rparr>)"
  by (simp add: ext_def)

lemma ext_write_shrink: "ext st (write_shrink ispbc st)"
proof -
  have "ext st (shrink_last_line ispbc ks (wr a (wr b st)))" for ks a b
    by (blast intro: ext_trans ext_wr ext_shrink_last_line)
  moreover have "ext st (raise e (wr b st))" for e b
    by (blast intro: ext_trans ext_wr ext_raise)
  ultimately show ?thesis
    unfolding write_shrink_def Let_def
    by (simp add: ext_raise ext_refl split: option.split kpoints.split kitem.split sum.split)
qed

lemma ext_write_kpts: "ext st (write_kpts st)"
  unfolding write_kpts_def Let_def
  by (auto simp: ext_raise split: option.split intro: ext_trans ext_self_kpts ext_write_shrink)

lemma ext_write_end: "ext st (write_end st)"
  unfolding write_end_def by (blast intro: ext_trans ext_wr)

lemma write_crystal_in_ext: "ext (write_block1 (st0 c)) (write_crystal_in env c)"
proof -
  have "ext (write_block1 (st0 c)) (before_kpts env c)" by (rule before_kpts_ext)
  also have "ext (before_kpts env c) (unless_raised write_kpts (before_kpts env c))"
    by (rule ext_unless) (rule ext_write_kpts)
  also have "ext \<dots> (unless_raised write_end (unless_raised write_kpts (before_kpts env c)))"
    by (rule ext_unless) (rule ext_write_end)
  finally show ?thesis by (simp add: write_crystal_in_def)
qed

lemma block1_pcpot:
  assumes "pcpot c = Some pc"
  shows "outfile (write_block1 (st0 c)) =
           [''Single point + Gradient crystal calculation '' @ nl, ''EXTERNAL '' @ nl, ''POINTCHG '' @ nl]"
    and "pointchg_inp (write_block1 (st0 c)) = fst (write_mmcharges pc)"
  using assms by (simp_all add: write_block1_def st0_def wr_def Let_def split: prod.splits)



lemma write_crystal_in_out_raised:
  "raised (before_kpts env c) = None \<Longrightarrow>
   outfile (write_crystal_in env c) =
     (case raised (write_kpts (before_kpts env c)) of
        None \<Rightarrow> outfile (write_kpts (before_kpts env c)) @ [''GRADCAL '' @ nl, ''END '' @ nl]
      | Some e \<Rightarrow> outfile (write_kpts (before_kpts env c)))"
  "raised (before_kpts env c) = None \<Longrightarrow>
   raised (write_crystal_in env c) = raised (write_kpts (before_kpts env c))"
  by (simp_all add: write_crystal_in_def unless_raised_def write_end_out write_end_raised
        split: option.splits)

text \<open>
  Claim C7 as stated fails: the default calculator on a molecule has the effective \<open>kpts\<close>
  \<open>None\<close>, which is none of the rejected values, and no \<open>SHRINK\<close> section is written.
\<close>

theorem write_crystal_in_kpts_counterexample:
  "\<not> (\<forall>env c a. calc_atoms c = Some a \<longrightarrow>
        (if unsupported_kpts (effective_kpts (pbc a) (p_kpts (calc_params c)))
         then raises_ValueError (write_crystal_in env c)
         else shrink_line \<in> set (outfile (write_crystal_in env c))))"
proof
  assume "\<forall>env c a. calc_atoms c = Some a \<longrightarrow>
        (if unsupported_kpts (effective_kpts (pbc a) (p_kpts (calc_params c)))
         then raises_ValueError (write_crystal_in env c)
         else shrink_line \<in> set (outfile (write_crystal_in env c)))"
  moreover have "calc_atoms example_calc = Some hydrogen" by (simp add: example_calc_def)
  ultimately have "if unsupported_kpts (effective_kpts (pbc hydrogen) (p_kpts (calc_params example_calc)))
         then raises_ValueError (write_crystal_in example_env example_calc)
         else shrink_line \<in> set (outfile (write_crystal_in example_env example_calc))" by blast
  moreover have "\<not> unsupported_kpts (effective_kpts (pbc hydrogen) (p_kpts (calc_params example_calc)))"
    by code_simp
  moreover have "shrink_line \<notin> set (outfile (write_crystal_in example_env example_calc))"
    by code_simp
  ultimately show False by simp
qed


text \<open>
  Claim C6, as amended.  On a calculator with a point-charge potential, \<open>write_crystal_in\<close>
  writes \<open>POINTCHG\<close> as the third line of the input file and the charge file is what
  \<open>write_mmcharges\<close> writes: no file when the charges are \<open>None\<close>; and, when there are at least
  as many positions as charges and every position has three coordinates, the number of
  charges followed by one line per charge with its x, y, z and charge.
\<close>

theorem write_crystal_in_pointcharges:
  assumes pc: "pcpot c = Some pc"
  shows "(\<exists>rest. outfile (write_crystal_in env c) =
            [''Single point + Gradient crystal calculation '' @ nl, ''EXTERNAL '' @ nl,
             ''POINTCHG '' @ nl] @ rest)
       \<and> pointchg_inp (write_crystal_in env c) = fst (write_mmcharges pc)
       \<and> (mmcharges pc = None \<longrightarrow> fst (write_mmcharges pc) = None)
       \<and> (\<forall>qs ps. mmcharges pc = Some qs \<and> mmpositions pc = Some ps
              \<and> length qs \<le> length ps \<and> (\<forall>p \<in> set ps. length p = 3) \<longrightarrow>
            (\<exists>ls. write_mmcharges pc = (Some (count_line qs # ls), None)
               \<and> length ls = length qs
               \<and> (\<forall>i < length qs.
                     ls ! i = mmcharge_line (ps ! i ! 0) (ps ! i ! 1) (ps ! i ! 2) (qs ! i))))"
proof -
  have e: "ext (write_block1 (st0 c)) (write_crystal_in env c)" by (rule write_crystal_in_ext)
  have 1: "\<exists>rest. outfile (write_crystal_in env c) =
            [''Single point + Gradient crystal calculation '' @ nl, ''EXTERNAL '' @ nl,
             ''POINTCHG '' @ nl] @ rest"
    using e block1_pcpot(1) [OF pc] unfolding ext_def by metis
  have 2: "pointchg_inp (write_crystal_in env c) = fst (write_mmcharges pc)"
    using e block1_pcpot(2) [OF pc] unfolding ext_def by metis
  have 3: "mmcharges pc = None \<longrightarrow> fst (write_mmcharges pc) = None"
    by (simp add: write_mmcharges_def)
  have 4: "\<exists>ls. write_mmcharges pc = (Some (count_line qs # ls), None)
               \<and> length ls = length qs
               \<and> (\<forall>i < length qs.
                     ls ! i = mmcharge_line (ps ! i ! 0) (ps ! i ! 1) (ps ! i ! 2) (qs ! i))"
    if h: "mmcharges pc = Some qs" "mmpositions pc = Some ps" "length qs \<le> length ps"
      "\<forall>p \<in> set ps. length p = 3" for qs ps
  proof -
    let ?ls = "map (\<lambda>(p, q). mmcharge_line (p ! 0) (p ! 1) (p ! 2) q) (zip ps qs)"
    have "write_mmcharges pc = (Some (count_line qs # ?ls), None)"
      using h by (simp add: write_mmcharges_ok)
    moreover have "length ?ls = length qs" using h(3) by simp
    moreover have "\<forall>i < length qs. ?ls ! i = mmcharge_line (ps ! i ! 0) (ps ! i ! 1) (ps ! i ! 2) (qs ! i)"
      using h(3) by simp
    ultimately show ?thesis by blast
  qed
  from 1 2 3 4 show ?thesis by blast
qed

text \<open>The theorem at two charges with their positions, and at charges \<open>None\<close>.\<close>

theorem write_crystal_in_pointcharges_witness:
  "pointchg_inp (write_crystal_in example_env (embedded_calc (Some [1, - 1 / 2]) [[0, 0, 1], [3 / 2, 0, 0]]))
     = fst (write_mmcharges \<lparr>mmcharges = Some [1, - 1 / 2], mmpositions = Some [[0, 0, 1], [3 / 2, 0, 0]],
                             pc_directory = ''.''\<rparr>)
   \<and> (\<exists>ls. write_mmcharges \<lparr>mmcharges = Some [1, - 1 / 2], mmpositions = Some [[0, 0, 1], [3 / 2, 0, 0]],
                             pc_directory = ''.''\<rparr> = (Some (count_line [1, - 1 / 2] # ls), None)
         \<and> length ls = 2)
   \<and> pointchg_inp (write_crystal_in example_env (embedded_calc None [])) = None"
proof -
  let ?pc = "\<lparr>mmcharges = Some [1, - 1 / 2], mmpositions = Some [[0, 0, 1], [3 / 2, 0, 0]],
       pc_directory = ''.''\<rparr>"
  let ?pn = "\<lparr>mmcharges = None, mmpositions = Some [], pc_directory = ''.''\<rparr>"
  have p: "pcpot (embedded_calc (Some [1, - 1 / 2]) [[0, 0, 1], [3 / 2, 0, 0]]) = Some ?pc"
    by (simp add: embedded_calc_def embed_def set_positions_def example_calc_def)
  have n: "pcpot (embedded_calc None []) = Some ?pn"
    by (simp add: embedded_calc_def embed_def set_positions_def example_calc_def)
  from write_crystal_in_pointcharges [OF p, of example_env]
  have "pointchg_inp (write_crystal_in example_env (embedded_calc (Some [1, - 1 / 2]) [[0, 0, 1], [3 / 2, 0, 0]]))
          = fst (write_mmcharges ?pc)"
    and "\<exists>ls. write_mmcharges ?pc = (Some (count_line [1, - 1 / 2] # ls), None) \<and> length ls = 2"
    by auto
  moreover from write_crystal_in_pointcharges [OF n, of example_env]
  have "pointchg_inp (write_crystal_in example_env (embedded_calc None [])) = None"
    by simp
  ultimately show ?thesis by blast
qed

text \<open>
  Claim C6 as stated fails when fewer positions than charges have been set: \<open>zip\<close> stops at
  the shorter list, so one charge with an empty position list gives the count line alone.
\<close>

theorem write_mmcharges_counterexample:
  "\<not> (\<forall>env c pc qs ps. pcpot c = Some pc \<and> mmcharges pc = Some qs \<and> mmpositions pc = Some ps \<longrightarrow>
        (\<exists>ls. pointchg_inp (write_crystal_in env c) = Some (count_line qs # ls)
              \<and> length ls = length qs))"
proof
  assume a: "\<forall>env c pc qs ps. pcpot c = Some pc \<and> mmcharges pc = Some qs \<and> mmpositions pc = Some ps \<longrightarrow>
        (\<exists>ls. pointchg_inp (write_crystal_in env c) = Some (count_line qs # ls)
              \<and> length ls = length qs)"
  let ?pc = "\<lparr>mmcharges = Some [1], mmpositions = Some [], pc_directory = ''.''\<rparr>"
  have p: "pcpot (embedded_calc (Some [1]) []) = Some ?pc"
    by (simp add: embedded_calc_def embed_def set_positions_def example_calc_def)
  from a p have "\<exists>ls. pointchg_inp (write_crystal_in example_env (embedded_calc (Some [1]) []))
                    = Some (count_line [1] # ls) \<and> length ls = length [1::rat]"
    by fastforce
  moreover have "pointchg_inp (write_crystal_in example_env (embedded_calc (Some [1]) []))
                    = Some [count_line [1]]"
    by code_simp
  ultimately show False by simp
qed

section \<open>Python values and dictionaries\<close>

text \<open>
  The values that occur as keyword parameters and as entries of the parameters dictionary.
  A dictionary is the list of its items in insertion order, with distinct keys.
\<close>

datatype pyval = PNone | PBool bool | PInt int | PFloat rat | PStr string | PList "pyval list"

type_synonym pydict = "(string \<times> pyval) list"

definition truthy :: "pyval \<Rightarrow> bool" where
  "truthy v = (case v of PNone \<Rightarrow> False | PBool b \<Rightarrow> b | PInt i \<Rightarrow> i \<noteq> 0 | PFloat x \<Rightarrow> x \<noteq> 0
                | PStr s \<Rightarrow> s \<noteq> [] | PList xs \<Rightarrow> xs \<noteq> [])"



definition has_key :: "pydict \<Rightarrow> string \<Rightarrow> bool" where
  \<comment> \<open>\<open>k in d\<close>\<close>
  "has_key d k = (map_of d k \<noteq> None)"

definition dict_del :: "string \<Rightarrow> pydict \<Rightarrow> pydict" where
  "dict_del k d = filter (\<lambda>kv. fst kv \<noteq> k) d"

definition dict_pop :: "string \<Rightarrow> pydict \<Rightarrow> pyval \<times> pydict" where
  \<comment> \<open>\<open>d.pop(k, None)\<close>: the value and the dictionary left\<close>
  "dict_pop k d = (case map_of d k of None \<Rightarrow> (PNone, d) | Some v \<Rightarrow> (v, dict_del k d))"

definition dict_set :: "string \<Rightarrow> pyval \<Rightarrow> pydict \<Rightarrow> pydict" where
  \<comment> \<open>\<open>d[k] = v\<close>: a key that is present keeps its place\<close>
  "dict_set k v d =
     (if has_key d k then map (\<lambda>kv. if fst kv = k then (k, v) else kv) d else d @ [(k, v)])"

fun dict_update :: "pydict \<Rightarrow> pydict \<Rightarrow> pydict" where
  \<comment> \<open>\<open>d.update(e)\<close>\<close>
  "dict_update d [] = d"
| "dict_update d ((k, v) # e) = dict_update (dict_set k v d) e"

definition ebind :: "error + 'a \<Rightarrow> ('a \<Rightarrow> error + 'b) \<Rightarrow> error + 'b" where
  \<comment> \<open>sequencing: an exception ends the computation\<close>
  "ebind m f = (case m of Inl e \<Rightarrow> Inl e | Inr x \<Rightarrow> f x)"

fun emap :: "('a \<Rightarrow> error + 'b) \<Rightarrow> 'a list \<Rightarrow> error + 'b list" where
  "emap f [] = Inr []"
| "emap f (x # xs) = ebind (f x) (\<lambda>y. ebind (emap f xs) (\<lambda>ys. Inr (y # ys)))"

fun is_substring :: "string \<Rightarrow> string \<Rightarrow> bool" where
  \<comment> \<open>\<open>p in s\<close>\<close>
  "is_substring p [] = (p = [])"
| "is_substring p (c # s) = (take (length p) (c # s) = p \<or> is_substring p s)"

section \<open>Writing a Gaussian input file\<close>

text \<open>
  What \<open>write_gaussian_in\<close> takes from outside this file: the element table and the table
  of standard masses, the content of a basis file (\<open>None\<close> when it cannot be opened), the
  text \<open>str\<close> gives for a float or a list, and the float operations \<open>array.sum()\<close> and
  \<open>x + 1\<close>.
\<close>

record py_env =
  chemical_symbols :: "string list"
  atomic_masses :: "rat list"
  read_file :: "string \<Rightarrow> string option"
  str_other :: "pyval \<Rightarrow> string"
  np_sum :: "rat list \<Rightarrow> rat"
  plus_one :: "rat \<Rightarrow> rat"




definition nuclei_prop_array_names :: "string list" where
  "nuclei_prop_array_names = [''spin'', ''zeff'', ''qmom'', ''nmagm'', ''znuc'', ''radnuclear'', ''iso'']"

definition py_str :: "py_env \<Rightarrow> pyval \<Rightarrow> string" where
  \<comment> \<open>\<open>str(v)\<close>, which is also what \<open>'{}'.format(v)\<close> gives\<close>
  "py_str env v =
     (case v of PNone \<Rightarrow> ''None'' | PBool b \<Rightarrow> (if b then ''True'' else ''False'')
      | PInt i \<Rightarrow> str_int i | PStr s \<Rightarrow> s | _ \<Rightarrow> str_other env v)"

definition py_lower :: "pyval \<Rightarrow> error + string" where
  \<comment> \<open>\<open>v.lower()\<close>\<close>
  "py_lower v = (case v of PStr s \<Rightarrow> Inr (lower s) | _ \<Rightarrow> Inl (AttributeError ''lower''))"










definition index_of :: "string list \<Rightarrow> string \<Rightarrow> nat" where
  \<comment> \<open>\<open>xs.index(x)\<close> for an \<open>x\<close> that occurs\<close>
  "index_of xs x = length (takeWhile (\<lambda>y. y \<noteq> x) xs)"

definition expected_mass :: "py_env \<Rightarrow> string \<Rightarrow> rat option" where
  \<comment> \<open>the standard mass of a symbol of the element table, \<open>None\<close> for any other symbol\<close>
  "expected_mass env symbol =
     (if symbol \<in> set (chemical_symbols env)
         \<and> index_of (chemical_symbols env) symbol < length (atomic_masses env)
      then Some (atomic_masses env ! index_of (chemical_symbols env) symbol) else None)"

















subsection \<open>Example inputs and the predicates of the statements\<close>

definition example_py_env :: py_env where
  "example_py_env = \<lparr>chemical_symbols = [''X'', ''H'', ''He'', ''Li'', ''Be'', ''B'', ''C'', ''N'', ''O''],
     atomic_masses = [1, 1008 / 1000, 4002602 / 1000000, 694 / 100, 90121831 / 10000000,
                      1081 / 100, 12011 / 1000, 14007 / 1000, 15999 / 1000],
     read_file = (\<lambda>path. None), str_other = (\<lambda>v. ''?''),
     np_sum = sum_list, plus_one = (\<lambda>x. x + 1)\<rparr>"




text \<open>Whether any initial magnetic moment is non-zero, and whether \<open>write_crystal_in\<close>
  gets as far as the Hamiltonian block.\<close>

definition magnetic :: "CRYSTAL \<Rightarrow> bool" where
  "magnetic c = (case calc_atoms c of None \<Rightarrow> False | Some a \<Rightarrow> any_nonzero (initial_magmoms a))"

definition reaches_hamiltonian :: "os_env \<Rightarrow> CRYSTAL \<Rightarrow> bool" where
  "reaches_hamiltonian env c =
     (raised (unless_raised (write_block2 env) (write_block1 (st0 c))) = None)"

subsection \<open>Properties of the Gaussian input writer\<close>















lemma calc_wr: "calc (wr s st) = calc st" and calc_raise: "calc (raise e st) = calc st"
  by (simp_all add: wr_def raise_def)

lemma calc_block2: "calc (write_block2 env st) = calc st"
  by (simp add: write_block2_def Let_def calc_wr calc_raise split: option.splits)

lemma calc_hamiltonian:
  "calc (write_hamiltonian st) =
     (if magnetic (calc st)
      then (calc st)\<lparr>calc_params := (calc_params (calc st))\<lparr>p_spinpol := True\<rparr>\<rparr> else calc st)"
  by (simp add: write_hamiltonian_def magnetic_def Let_def calc_wr calc_raise set_spinpol_def
      split: option.splits xc_functional.splits)

lemma calc_guess: "calc (write_guess env st) = calc st"
  by (simp add: write_guess_def calc_wr)

lemma calc_smearing: "calc (write_smearing env st) = calc st"
  by (simp add: write_smearing_def calc_wr calc_raise split: option.splits)

lemma calc_otherkeys: "calc (write_otherkeys ks st) = calc st"
  by (induction ks st rule: write_otherkeys.induct) (simp_all add: calc_wr)





lemma calc_unless: "(\<And>s. calc (f s) = calc s) \<Longrightarrow> calc (unless_raised f st) = calc st"
  by (simp add: unless_raised_def split: option.splits)

lemma raised_hamiltonian_calc:
  "raised st = None \<Longrightarrow> calc (unless_raised write_hamiltonian st) =
     (if magnetic (calc st)
      then (calc st)\<lparr>calc_params := (calc_params (calc st))\<lparr>p_spinpol := True\<rparr>\<rparr> else calc st)"
  "raised st \<noteq> None \<Longrightarrow> calc (unless_raised write_hamiltonian st) = calc st"
  by (auto simp: unless_raised_def calc_hamiltonian)

lemma before_kpts_params:
  "calc_params (calc (before_kpts env c)) =
     (if reaches_hamiltonian env c \<and> magnetic c
      then (calc_params c)\<lparr>p_spinpol := True\<rparr> else calc_params c)"
proof -
  define s2 where "s2 = unless_raised (write_block2 env) (write_block1 (st0 c))"
  define s3 where "s3 = unless_raised write_hamiltonian s2"
  define s4 where "s4 = unless_raised (write_guess env) s3"
  define s5 where "s5 = unless_raised (write_smearing env) s4"
  define s6 where "s6 = unless_raised (write_otherkeys (p_otherkeys (calc_params (calc s5)))) s5"
  have b: "before_kpts env c = s6"
    by (simp add: before_kpts_def Let_def s6_def s5_def s4_def s3_def s2_def st0_def)
  have c2: "calc s2 = c" unfolding s2_def
    by (simp add: calc_unless calc_block2 block1_calc st0_def)
  have c3: "calc s3 = (if reaches_hamiltonian env c \<and> magnetic c
      then c\<lparr>calc_params := (calc_params c)\<lparr>p_spinpol := True\<rparr>\<rparr> else c)"
    unfolding s3_def using raised_hamiltonian_calc [of s2] c2
    by (cases "raised s2") (auto simp: reaches_hamiltonian_def s2_def)
  have "calc s6 = calc s5" unfolding s6_def by (simp add: calc_unless calc_otherkeys)
  also have "\<dots> = calc s4" unfolding s5_def by (simp add: calc_unless calc_smearing)
  also have "\<dots> = calc s3" unfolding s4_def by (simp add: calc_unless calc_guess)
  finally show ?thesis using b c3 by simp
qed


lemma before_kpts_isp: "p_isp (calc_params (calc (before_kpts env c))) = p_isp (calc_params c)"
  by (simp add: before_kpts_params)

lemma all_ints_map: "all_ints ks = Some is \<Longrightarrow> ks = map KInt is"
proof (induction ks arbitrary: "is")
  case Nil
  then show ?case by simp
next
  case (Cons k ks)
  then show ?case by (cases k) auto
qed

lemma py_max_ints:
  assumes "all_ints ks = Some is" "is \<noteq> []"
  shows "py_max ks = Inr (Max (set is))"
proof -
  obtain i is' where i: "is = i # is'" using assms(2) by (cases "is") auto
  show ?thesis using assms(1) Max.set_eq_fold [of i is'] by (simp add: py_max_def i)
qed

lemma py_max_strings:
  assumes "all_ints ks = None"
  shows "\<exists>msg. py_max ks = Inl (TypeError msg)"
  using assms by (simp add: py_max_def)

lemma write_kpts_mixed:
  assumes "calc_atoms (calc st) = Some a"
    "effective_kpts (pbc a) (p_kpts (calc_params (calc st))) = Some (KTuple ks)"
    "ks \<noteq> []" "last ks = KInt i" "all_ints ks = None"
  shows "\<exists>msg. raised (write_kpts st) = Some (TypeError msg)"
    "outfile (write_kpts st) = outfile st @ [shrink_line]"
proof -
  from py_max_strings [OF assms(5)] obtain msg where m: "py_max ks = Inl (TypeError msg)" by blast
  show "\<exists>msg. raised (write_kpts st) = Some (TypeError msg)"
    using assms(1-4) m by (simp add: write_kpts_def write_shrink_def raise_def wr_def)
  show "outfile (write_kpts st) = outfile st @ [shrink_line]"
    using assms(1-4) m by (simp add: write_kpts_def write_shrink_def raise_def wr_def)
qed

lemma str_int_one: "str_int 1 = ''1''"
  by code_simp

lemma shrink_last_line_ints:
  assumes "ispbc = [p0, p1, p2]" "p0 \<or> p1 \<or> p2"
  shows "shrink_last_line ispbc (map KInt is) st =
           (if length is < directions_read ispbc then raise index_error st
            else wr (concat (map (\<lambda>k. str_int k @ '' '') (shrink_factors ispbc is)) @ nl) st)"
proof (cases "is")
  case Nil
  then show ?thesis using assms
    by (auto simp: shrink_last_line_def directions_read_def)
next
  case c1: (Cons k0 r1)
  show ?thesis
  proof (cases r1)
    case Nil
    then show ?thesis using assms c1
      by (auto simp: shrink_last_line_def directions_read_def shrink_factors_def str_kitem_def
          str_int_one)
  next
    case c2: (Cons k1 r2)
    show ?thesis
    proof (cases r2)
      case Nil
      then show ?thesis using assms c1 c2
        by (auto simp: shrink_last_line_def directions_read_def shrink_factors_def str_kitem_def
            str_int_one)
    next
      case c3: (Cons k2 r3)
      then show ?thesis using assms c1 c2
        by (auto simp: shrink_last_line_def directions_read_def shrink_factors_def str_kitem_def
            str_int_one)
    qed
  qed
qed

lemma write_kpts_ints:
  assumes "calc_atoms (calc st) = Some a"
    "effective_kpts (pbc a) (p_kpts (calc_params (calc st))) = Some (KTuple ks)"
    "ks \<noteq> []" "all_ints ks = Some is" "length (pbc a) = 3" "raised st = None"
  shows "length is < directions_read (pbc a) \<Longrightarrow>
           raised (write_kpts st) = Some index_error
           \<and> outfile (write_kpts st)
               = outfile st @ take 2 (shrink_section (p_isp (calc_params (calc st))) (pbc a) is)"
    "\<not> length is < directions_read (pbc a) \<Longrightarrow>
           raised (write_kpts st) = None
           \<and> outfile (write_kpts st)
               = outfile st @ shrink_section (p_isp (calc_params (calc st))) (pbc a) is"
proof -
  have ks: "ks = map KInt is" using assms(4) by (rule all_ints_map)
  have ne: "is \<noteq> []" using assms(3) ks by simp
  have l: "last ks = KInt (last is)" using ne by (simp add: ks last_map)
  obtain p0 p1 p2 where p: "pbc a = [p0, p1, p2]"
    using assms(5) by (auto simp: length_Suc_conv numeral_3_eq_3)
  have any: "p0 \<or> p1 \<or> p2"
    using assms(2) by (auto simp: effective_kpts_def p split: if_splits)
  define st1 where "st1 = st\<lparr>calc := (calc st)\<lparr>self_kpts := Some (KTuple ks)\<rparr>\<rparr>"
  define st2 where "st2 = wr (''0 '' @ str_int (p_isp (calc_params (calc st)) * Max (set is)) @ '' '' @ nl)
                            (wr shrink_line st1)"
  have w: "write_kpts st = shrink_last_line (pbc a) (map KInt is) st2"
    using assms(1,2,3) l py_max_ints [OF assms(4) ne]
    by (simp add: write_kpts_def write_shrink_def st1_def st2_def Let_def wr_def ks [symmetric])
  have o2: "outfile st2 = outfile st @ [shrink_line,
              ''0 '' @ str_int (p_isp (calc_params (calc st)) * Max (set is)) @ '' '' @ nl]"
    and r2: "raised st2 = None"
    using assms(6) by (simp_all add: st2_def st1_def wr_def)
  note s = shrink_last_line_ints [OF p any, of "is" st2, folded p]
  show "length is < directions_read (pbc a) \<Longrightarrow>
           raised (write_kpts st) = Some index_error
           \<and> outfile (write_kpts st)
               = outfile st @ take 2 (shrink_section (p_isp (calc_params (calc st))) (pbc a) is)"
    unfolding w s by (simp add: raise_def o2 shrink_section_def shrink_line_def)
  show "\<not> length is < directions_read (pbc a) \<Longrightarrow>
           raised (write_kpts st) = None
           \<and> outfile (write_kpts st)
               = outfile st @ shrink_section (p_isp (calc_params (calc st))) (pbc a) is"
    unfolding w s by (simp add: wr_def o2 r2 shrink_section_def shrink_line_def)
qed

text \<open>
  Claim C7, as amended.  On a structure with three periodic-boundary flags, and provided no
  earlier step of \<open>write_crystal_in\<close> has raised: the k-point block raises \<open>ValueError\<close> and
  writes nothing when the effective \<open>kpts\<close> is a float, a list or a non-empty tuple whose
  last element is a string; when the effective \<open>kpts\<close> is \<open>None\<close> (a structure that is periodic
  in no direction) it raises nothing and no \<open>SHRINK\<close> section is written; for the empty tuple
  it raises \<open>IndexError\<close>; for a tuple of integers that has an entry for every direction
  that is read, the whole \<open>SHRINK\<close> section is written, followed by \<open>GRADCAL\<close> and \<open>END\<close>;
  for a shorter tuple of integers \<open>IndexError\<close> is raised after the first two lines of the
  section; and for a tuple with a string before its last element \<open>TypeError\<close> is raised after
  the line \<open>SHRINK\<close>.
\<close>

theorem write_crystal_in_kpts:
  assumes reach: "raised (before_kpts env c) = None" and atoms: "calc_atoms c = Some a"
    and flags: "length (pbc a) = 3"
  shows "if unsupported_kpts (effective_kpts (pbc a) (p_kpts (calc_params c))) then
           raises_ValueError (write_crystal_in env c)
           \<and> outfile (write_crystal_in env c) = outfile (before_kpts env c)
         else if effective_kpts (pbc a) (p_kpts (calc_params c)) = None then
           raised (write_crystal_in env c) = None
           \<and> outfile (write_crystal_in env c)
               = outfile (before_kpts env c) @ [''GRADCAL '' @ nl, ''END '' @ nl]
         else if effective_kpts (pbc a) (p_kpts (calc_params c)) = Some (KTuple []) then
           raised (write_crystal_in env c) = Some index_error
           \<and> outfile (write_crystal_in env c) = outfile (before_kpts env c)
         else
           (\<forall>ks. effective_kpts (pbc a) (p_kpts (calc_params c)) = Some (KTuple ks) \<longrightarrow>
              (case all_ints ks of
                 None \<Rightarrow>
                   (\<exists>msg. raised (write_crystal_in env c) = Some (TypeError msg))
                   \<and> outfile (write_crystal_in env c) = outfile (before_kpts env c) @ [''SHRINK  '' @ nl]
               | Some factors \<Rightarrow>
                   if length factors < directions_read (pbc a) then
                     raised (write_crystal_in env c) = Some index_error
                     \<and> outfile (write_crystal_in env c)
                         = outfile (before_kpts env c)
                           @ take 2 (shrink_section (p_isp (calc_params c)) (pbc a) factors)
                   else
                     raised (write_crystal_in env c) = None
                     \<and> outfile (write_crystal_in env c)
                         = outfile (before_kpts env c)
                           @ shrink_section (p_isp (calc_params c)) (pbc a) factors
                           @ [''GRADCAL '' @ nl, ''END '' @ nl]))"
proof -
  let ?B = "before_kpts env c"
  let ?eff = "effective_kpts (pbc a) (p_kpts (calc_params c))"
  have a: "calc_atoms (calc ?B) = Some a" using atoms by (simp add: before_kpts_atoms)
  have k: "effective_kpts (pbc a) (p_kpts (calc_params (calc ?B))) = ?eff" by (simp add: before_kpts_kpts)
  note wr = write_crystal_in_out_raised [OF reach]
  show ?thesis
  proof (cases ?eff)
    case None
    with write_kpts_None [OF a] k reach show ?thesis
      by (simp add: wr unsupported_kpts_def)
  next
    case (Some v)
    show ?thesis
    proof (cases v)
      case (KFloat d)
      with Some k write_kpts_KFloat [OF a, of d] show ?thesis
        by (simp add: wr unsupported_kpts_def raises_ValueError_def)
    next
      case (KList l)
      with Some k write_kpts_KList [OF a, of l] show ?thesis
        by (simp add: wr unsupported_kpts_def raises_ValueError_def)
    next
      case (KTuple ks)
      show ?thesis
      proof (cases "ks = []")
        case True
        with Some KTuple k write_kpts_empty [OF a] show ?thesis
          by (simp add: wr unsupported_kpts_def)
      next
        case False
        show ?thesis
        proof (cases "last ks")
          case (KStr s)
          with False Some KTuple k write_kpts_shifted [OF a, of ks s] show ?thesis
            by (simp add: wr unsupported_kpts_def raises_ValueError_def)
        next
          case (KInt i)
          have e: "effective_kpts (pbc a) (p_kpts (calc_params (calc ?B))) = Some (KTuple ks)"
            using k Some KTuple by simp
          have u: "\<not> unsupported_kpts ?eff" "?eff \<noteq> None" "?eff \<noteq> Some (KTuple [])"
            using False Some KTuple KInt by (simp_all add: unsupported_kpts_def)
          show ?thesis
          proof (cases "all_ints ks")
            case None
            from write_kpts_mixed [OF a e False KInt None]
            show ?thesis using u Some KTuple None
              by (auto simp: wr shrink_line_def)
          next
            case (Some factors)
            note w = write_kpts_ints [OF a e False Some flags reach, unfolded before_kpts_isp]
            show ?thesis
            proof (cases "length factors < directions_read (pbc a)")
              case True
              with w(1) u \<open>?eff = Some v\<close> KTuple Some show ?thesis
                by (simp add: wr)
            next
              case False
              with w(2) u \<open>?eff = Some v\<close> KTuple Some show ?thesis
                by (simp add: wr)
            qed
          qed
        qed
      qed
    qed
  qed
qed

text \<open>The theorem at a 2x2x2 mesh and at a k-point density, on a periodic structure.\<close>

theorem write_crystal_in_kpts_witness:
  "raised (before_kpts example_env (periodic_calc (Some (KTuple [KInt 2, KInt 2, KInt 2])))) = None
   \<and> length (pbc (hydrogen\<lparr>pbc := [True, True, True]\<rparr>)) = 3
   \<and> outfile (write_crystal_in example_env (periodic_calc (Some (KTuple [KInt 2, KInt 2, KInt 2]))))
        = outfile (before_kpts example_env (periodic_calc (Some (KTuple [KInt 2, KInt 2, KInt 2]))))
          @ [''SHRINK  '' @ nl, ''0 2 '' @ nl, ''2 2 2 '' @ nl, ''GRADCAL '' @ nl, ''END '' @ nl]
   \<and> raises_ValueError (write_crystal_in example_env (periodic_calc (Some (KFloat (5 / 2)))))"
proof -
  let ?c = "periodic_calc (Some (KTuple [KInt 2, KInt 2, KInt 2]))"
  let ?d = "periodic_calc (Some (KFloat (5 / 2)))"
  let ?a = "hydrogen\<lparr>pbc := [True, True, True]\<rparr>"
  have r: "raised (before_kpts example_env ?c) = None" by code_simp
  have r': "raised (before_kpts example_env ?d) = None" by code_simp
  have a: "calc_atoms ?c = Some ?a" "calc_atoms ?d = Some ?a" by (simp_all add: periodic_calc_def)
  have l: "length (pbc ?a) = 3" by simp
  have e: "effective_kpts (pbc ?a) (p_kpts (calc_params ?c)) = Some (KTuple [KInt 2, KInt 2, KInt 2])"
    "effective_kpts (pbc ?a) (p_kpts (calc_params ?d)) = Some (KFloat (5 / 2))"
    by (simp_all add: periodic_calc_def effective_kpts_def)
  have s: "shrink_section (p_isp (calc_params ?c)) [True, True, True] [2, 2, 2]
             = [''SHRINK  '' @ nl, ''0 2 '' @ nl, ''2 2 2 '' @ nl]"
    by code_simp
  have d: "\<not> Suc (Suc (Suc 0)) < directions_read [True, True, True]"
    by (simp add: directions_read_def)
  have "outfile (write_crystal_in example_env ?c) = outfile (before_kpts example_env ?c)
          @ [''SHRINK  '' @ nl, ''0 2 '' @ nl, ''2 2 2 '' @ nl, ''GRADCAL '' @ nl, ''END '' @ nl]"
    using write_crystal_in_kpts [OF r a(1) l] unfolding e
    by (simp add: unsupported_kpts_def s d)
  moreover have "raises_ValueError (write_crystal_in example_env ?d)"
    using write_crystal_in_kpts [OF r' a(2) l] unfolding e by (simp add: unsupported_kpts_def)
  ultimately show ?thesis using r l by blast
qed





section \<open>Reading a Gaussian input file\<close>

subsection \<open>The regular expressions\<close>

text \<open>
  Each regular expression of the source is a function on the text.  All of them are
  deterministic: a greedy character class is always followed by a character outside the
  class or by optional parts only, so the first match the engine finds is the one computed
  here.
\<close>

definition link0_char :: "char \<Rightarrow> bool" where
  \<comment> \<open>the class \<open>[^\=\)\(!]\<close>\<close>
  "link0_char c = (c \<notin> set ''=)(!'')"

definition re_link0 :: "string \<Rightarrow> (string \<times> string option) option" where
  \<comment> \<open>\<open>_re_link0.match(line)\<close>: groups 1 and 2 of \<open>^\s*%([^\=\)\(!]+)=?([^\=\)\(!]+)?(!.+)?\<close>\<close>
  "re_link0 line =
     (case dropWhile is_space line of
        [] \<Rightarrow> None
      | c # rest \<Rightarrow>
          if c \<noteq> CHR ''%'' \<or> takeWhile link0_char rest = [] then None
          else
            (let r1 = dropWhile link0_char rest;
                 r2 = (case r1 of [] \<Rightarrow> [] | d # r \<Rightarrow> if d = CHR ''='' then r else r1);
                 g2 = takeWhile link0_char r2
             in Some (takeWhile link0_char rest, if g2 = [] then None else Some g2)))"

definition re_output_type :: "string \<Rightarrow> (string \<times> string) option" where
  \<comment> \<open>\<open>_re_output_type.match(line)\<close>: groups 0 and 1 of \<open>^\s*#\s*([NPTnpt]?)\s*\<close>\<close>
  "re_output_type line =
     (case dropWhile is_space line of
        [] \<Rightarrow> None
      | c # rest \<Rightarrow>
          if c \<noteq> CHR ''#'' then None
          else
            (let r1 = dropWhile is_space rest;
                 g1 = (case r1 of [] \<Rightarrow> [] | d # r \<Rightarrow> if d \<in> set ''NPTnpt'' then [d] else []);
                 r2 = drop (length g1) r1
             in Some (takeWhile is_space line @ ''#'' @ takeWhile is_space rest @ g1
                      @ takeWhile is_space r2, g1)))"

definition opt_sign :: "string \<Rightarrow> string" where
  \<comment> \<open>the text after an optional \<open>[+-]\<close>\<close>
  "opt_sign s = (case s of [] \<Rightarrow> [] | c # r \<Rightarrow> if c = CHR ''+'' \<or> c = CHR ''-'' then r else s)"

definition re_chgmult :: "string \<Rightarrow> bool" where
  \<comment> \<open>whether \<open>^\s*[+-]?\d+(?:,\s*|\s+)[+-]?\d+\s*$\<close> matches; group 0 is then the whole line\<close>
  "re_chgmult line =
     (let s1 = opt_sign (dropWhile is_space line)
      in takeWhile is_digit s1 \<noteq> [] \<and>
         (case dropWhile is_digit s1 of
            [] \<Rightarrow> False
          | c # r \<Rightarrow>
              (c = CHR '','' \<or> is_space c) \<and>
              (let s3 = opt_sign (dropWhile is_space r)
               in takeWhile is_digit s3 \<noteq> [] \<and> list_all is_space (dropWhile is_digit s3))))"

definition is_word :: "char \<Rightarrow> bool" where
  \<comment> \<open>the class \<open>[\w-]\<close>\<close>
  "is_word c = (is_alpha c \<or> is_digit c \<or> c = CHR ''_'' \<or> c = CHR ''-'')"

definition basis_char :: "char \<Rightarrow> bool" where
  \<comment> \<open>the class \<open>[^/=!]\<close>\<close>
  "basis_char c = (c \<notin> set ''/=!'')"

definition not_bang :: "char \<Rightarrow> bool" where
  "not_bang c = (c \<noteq> CHR ''!'')"

record method_basis_match =
  group1 :: string
  group2 :: string
  group4 :: "string option"
  group5 :: "string option"

definition re_method_basis :: "string \<Rightarrow> method_basis_match option" where
  \<comment> \<open>\<open>_re_method_basis.match(line)\<close>, for
     \<open>\s*([\w-]+)\s*\/([^/=!]+)([\/]([^!]+))?\s*(!.+)?\<close>\<close>
  "re_method_basis line =
     (let s0 = dropWhile is_space line;
          g1 = takeWhile is_word s0
      in if g1 = [] then None
         else case dropWhile is_space (dropWhile is_word s0) of
           [] \<Rightarrow> None
         | c # s2 \<Rightarrow>
             if c \<noteq> CHR ''/'' \<or> takeWhile basis_char s2 = [] then None
             else
               (let s3 = dropWhile basis_char s2;
                    g4 = (case s3 of
                            [] \<Rightarrow> None
                          | d # r \<Rightarrow> if d = CHR ''/'' \<and> takeWhile not_bang r \<noteq> []
                                      then Some (takeWhile not_bang r) else None);
                    s4 = (case g4 of None \<Rightarrow> s3 | Some g \<Rightarrow> drop (Suc (length g)) s3);
                    g5 = (case dropWhile is_space s4 of
                            [] \<Rightarrow> None
                          | d # r \<Rightarrow> if d = CHR ''!'' \<and> takeWhile (\<lambda>x. x \<noteq> CHR 0x0A) r \<noteq> []
                                      then Some (CHR ''!'' # takeWhile (\<lambda>x. x \<noteq> CHR 0x0A) r)
                                      else None)
                in Some \<lparr>group1 = g1, group2 = takeWhile basis_char s2, group4 = g4, group5 = g5\<rparr>))"

fun paren_scan :: "nat \<Rightarrow> (nat \<times> string) option \<Rightarrow> string \<Rightarrow> (nat \<times> nat \<times> string) list" where
  \<comment> \<open>\<open>re.finditer(r'\(([^\)]+)\)', line)\<close>: start, end and group 1 of every match.  The
     second argument holds the open parenthesis that is being matched and the text since.\<close>
  "paren_scan i cur [] = []"
| "paren_scan i None (c # s) =
     (if c = CHR ''('' then paren_scan (Suc i) (Some (i, [])) s else paren_scan (Suc i) None s)"
| "paren_scan i (Some (start, g)) (c # s) =
     (if c = CHR '')'' then
        (if g = [] then paren_scan (Suc i) None s
         else (start, Suc i, g) # paren_scan (Suc i) None s)
      else paren_scan (Suc i) (Some (start, g @ [c])) s)"

definition paren_matches :: "string \<Rightarrow> (nat \<times> nat \<times> string) list" where
  "paren_matches line = paren_scan 0 None line"

fun runs :: "(char \<Rightarrow> bool) \<Rightarrow> nat \<Rightarrow> (nat \<times> string) option \<Rightarrow> string \<Rightarrow> (nat \<times> string) list" where
  \<comment> \<open>\<open>re.finditer\<close> for a class repeated with \<open>+\<close>: start and text of every maximal run\<close>
  "runs P i cur [] = (case cur of None \<Rightarrow> [] | Some r \<Rightarrow> [r])"
| "runs P i cur (c # s) =
     (if P c then runs P (Suc i) (case cur of None \<Rightarrow> Some (i, [c]) | Some (k, w) \<Rightarrow> Some (k, w @ [c])) s
      else (case cur of None \<Rightarrow> runs P (Suc i) None s | Some r \<Rightarrow> r # runs P (Suc i) None s))"

definition keyword_char :: "char \<Rightarrow> bool" where
  \<comment> \<open>the class \<open>[^\,/\s]\<close>\<close>
  "keyword_char c = (c \<noteq> CHR '','' \<and> c \<noteq> CHR ''/'' \<and> \<not> is_space c)"

fun sub_equals :: "string \<Rightarrow> bool \<Rightarrow> string \<Rightarrow> string" where
  \<comment> \<open>\<open>re.sub(r'\s*=\s*', '=', line)\<close>, with the whitespace read since the last other
     character and whether an equals sign has just been written\<close>
  "sub_equals ws after [] = ws"
| "sub_equals ws after (c # s) =
     (if is_space c then (if after then sub_equals [] True s else sub_equals (ws @ [c]) False s)
      else if c = CHR ''='' then CHR ''='' # sub_equals [] True s
      else ws @ c # sub_equals [] False s)"

fun replace_from :: "string \<Rightarrow> nat \<Rightarrow> string \<Rightarrow> string" where
  \<comment> \<open>\<open>s.replace(old, '')\<close> for a non-empty \<open>old\<close>; the number counts the characters of an
     occurrence that are still to be dropped\<close>
  "replace_from old k [] = []"
| "replace_from old (Suc k) (c # s) = replace_from old k s"
| "replace_from old 0 (c # s) =
     (if take (length old) (c # s) = old then replace_from old (length old - 1) s
      else c # replace_from old 0 s)"

definition remove_all :: "string \<Rightarrow> string \<Rightarrow> string" where
  "remove_all old s = (if old = [] then s else replace_from old 0 s)"

definition replace_char :: "char \<Rightarrow> char \<Rightarrow> string \<Rightarrow> string" where
  \<comment> \<open>\<open>s.replace(a, b)\<close> for single characters\<close>
  "replace_char a b s = map (\<lambda>c. if c = a then b else c) s"

definition digit_value :: "char \<Rightarrow> int" where
  "digit_value c = (case map_of (zip ''0123456789'' [0, 1, 2, 3, 4, 5, 6, 7, 8, 9]) c of
                      Some d \<Rightarrow> d | None \<Rightarrow> 0)"

definition int_of_digits :: "string \<Rightarrow> int" where
  "int_of_digits s = foldl (\<lambda>a c. 10 * a + digit_value c) 0 s"

definition py_int :: "string \<Rightarrow> error + int" where
  \<comment> \<open>\<open>int(s)\<close> for a text without whitespace: an optional sign and digits\<close>
  "py_int s =
     (let ds = opt_sign s
      in if ds \<noteq> [] \<and> list_all is_digit ds
         then Inr (if take 1 s = ''-'' then - int_of_digits ds else int_of_digits ds)
         else Inl (ValueError ''invalid literal for int()''))"

definition isnumeric :: "string \<Rightarrow> bool" where
  "isnumeric s = (s \<noteq> [] \<and> list_all is_digit s)"

subsection \<open>The helper functions\<close>

text \<open>
  What the reader takes from outside this file: \<open>float(s)\<close>, the conversion of a z-matrix
  to positions and symbols (\<open>ase.io.zmatrix.parse_zmatrix\<close>), and the conversion numpy makes
  when a list of texts is assigned to a row of the cell.
\<close>

record reader_env =
  py_float :: "string \<Rightarrow> rat option"
  parse_zmatrix :: "string \<Rightarrow> string option \<Rightarrow> error + (rat list list \<times> string list)"
  np_row_of_strings :: "string list \<Rightarrow> error + rat list"

definition save_link0_param :: "string \<times> string option \<Rightarrow> pydict \<Rightarrow> pydict" where
  "save_link0_param link0_match parameters =
     dict_update parameters
       [(strip (lower (fst link0_match)),
         case snd link0_match of None \<Rightarrow> PNone | Some v \<Rightarrow> PStr (strip v))]"

definition validate_symbol_string :: "string \<Rightarrow> error + string" where
  "validate_symbol_string s =
     (if CHR ''-'' \<in> set s
      then Inl (IOError ''molecule specifications for molecular mechanics calculations are not supported'')
      else Inr s)"

definition convert_to_symbol :: "py_env \<Rightarrow> string \<Rightarrow> error + string" where
  "convert_to_symbol env s =
     ebind (validate_symbol_string s)
       (\<lambda>symbol.
          if isnumeric symbol then
            (let atomic_number = nat (int_of_digits symbol)
             in if atomic_number < length (chemical_symbols env)
                then Inr (chemical_symbols env ! atomic_number)
                else Inl (IndexError ''list index out of range''))
          else if takeWhile is_alpha symbol = [] then Inl (AttributeError ''group'')
          else Inr (takeWhile is_alpha symbol))"

fun route_parens :: "string \<Rightarrow> (nat \<times> nat \<times> string) list \<Rightarrow> error + (pydict \<times> (nat \<times> nat) list)" where
  \<comment> \<open>the loop over the parenthesis matches: the options saved and the index ranges\<close>
  "route_parens line [] = Inr ([], [])"
| "route_parens line ((start, stop, options) # ms) =
     (case filter (\<lambda>k. snd k \<noteq> ''='') (runs keyword_char 0 None (take start line)) of
        [] \<Rightarrow> Inl (IndexError ''list index out of range'')
      | k # ks \<Rightarrow>
          ebind (route_parens line ms)
            (\<lambda>(params, ranges).
               Inr ((lower (strip_chars '' ='' (snd (last (k # ks)))), PStr options) # params,
                    (fst (last (k # ks)), stop) # ranges)))"

fun cut_ranges :: "(nat \<times> nat) list \<Rightarrow> string \<Rightarrow> string" where
  \<comment> \<open>\<open>line = line[0:start] + line[stop + 1:]\<close> for every range\<close>
  "cut_ranges [] line = line"
| "cut_ranges ((start, stop) # rs) line = cut_ranges rs (take start line @ drop (Suc stop) line)"

fun split_where :: "(char \<Rightarrow> bool) \<Rightarrow> string \<Rightarrow> string \<Rightarrow> string list" where
  \<comment> \<open>\<open>re.split\<close> at every character of a class, with the field read so far\<close>
  "split_where P w [] = [w]"
| "split_where P w (c # s) = (if P c then w # split_where P [] s else split_where P (w @ [c]) s)"

definition route_item :: "string \<Rightarrow> pydict" where
  \<comment> \<open>the body of the loop over the items that are left\<close>
  "route_item s =
     (if CHR ''='' \<in> set s then
        (case split_on CHR ''='' s of
           keyword # options # rest \<Rightarrow>
             [(lower keyword, PStr (options @ concat (map (\<lambda>t. CHR ''='' # t) rest)))]
         | _ \<Rightarrow> [])
      else if s \<noteq> [] then [(lower s, PNone)] else [])"

definition get_route_params :: "string \<Rightarrow> error + pydict" where
  \<comment> \<open>\<open>line.split('!')[0]\<close> is the text before the first exclamation mark\<close>
  "get_route_params line0 =
     (let line = strip_chars '' #'' line0;
          line = takeWhile not_bang line
      in ebind (route_parens line (paren_matches line))
           (\<lambda>(params, index_ranges).
              (let line = cut_ranges (rev index_ranges) line;
                   line = sub_equals [] False line;
                   items = filter (\<lambda>x. x \<noteq> [])
                             (split_where (\<lambda>c. is_space c \<or> c = CHR '','' \<or> c = CHR ''/'') [] line)
               in Inr (dict_update (dict_update [] params) (concat (map route_item items))))))"

definition ase_gen_comment :: string where
  "ase_gen_comment = ''! ASE formatted method and basis''"

definition save_route_params :: "string \<Rightarrow> pydict \<Rightarrow> error + pydict" where
  "save_route_params line parameters =
     (case re_method_basis line of
        None \<Rightarrow> ebind (get_route_params line) (\<lambda>ps. Inr (dict_update parameters ps))
      | Some m \<Rightarrow>
          if group5 m = Some ase_gen_comment then
            (let parameters = dict_update parameters [(''method'', PStr (strip (group1 m)))];
                 parameters = dict_update parameters [(''basis'', PStr (strip (group2 m)))]
             in case group4 m of
                  None \<Rightarrow> Inr parameters
                | Some f \<Rightarrow> Inr (dict_update parameters [(''fitting_basis'', PStr (strip f))]))
          else ebind (get_route_params line) (\<lambda>ps. Inr (dict_update parameters ps)))"

definition nuclei_value :: "reader_env \<Rightarrow> pyval \<Rightarrow> error + pyval" where
  \<comment> \<open>\<open>int(v) if v.isnumeric() else float(v)\<close>\<close>
  "nuclei_value renv v =
     (case v of
        PStr s \<Rightarrow>
          if isnumeric s then Inr (PInt (int_of_digits s))
          else (case py_float renv s of
                  None \<Rightarrow> Inl (ValueError ''could not convert string to float'')
                | Some x \<Rightarrow> Inr (PFloat x))
      | _ \<Rightarrow> Inl (AttributeError ''isnumeric''))"

fun nuclei_values :: "reader_env \<Rightarrow> pydict \<Rightarrow> error + pydict" where
  "nuclei_values renv [] = Inr []"
| "nuclei_values renv ((k, v) # kvs) =
     ebind (nuclei_value renv v)
       (\<lambda>v'. ebind (nuclei_values renv kvs) (\<lambda>d. Inr ((lower k, v') # d)))"

type_synonym nuclei_arrays = "(string \<times> pyval list) list"

definition append_nuclei_props :: "nuclei_arrays \<Rightarrow> pydict \<Rightarrow> nuclei_arrays" where
  \<comment> \<open>one entry more in every array: the property of this atom, or \<open>None\<close>\<close>
  "append_nuclei_props nuclei_props current =
     map (\<lambda>(k, vs). (k, vs @ [case map_of current k of None \<Rightarrow> PNone | Some v \<Rightarrow> v])) nuclei_props"

definition save_nuclei_props ::
  "py_env \<Rightarrow> reader_env \<Rightarrow> string \<Rightarrow> nuclei_arrays
     \<Rightarrow> error + (string \<times> string \<times> string list \<times> nuclei_arrays)" where
  \<comment> \<open>returns the line without the properties, the symbol, the tokens and the arrays\<close>
  "save_nuclei_props env renv line0 nuclei_props =
     ebind (case paren_matches line0 of
              [] \<Rightarrow> Inr (line0, [])
            | (start, stop, g) # _ \<Rightarrow>
                Inr (remove_all (''('' @ g @ '')'') line0, [g]))
       (\<lambda>(line, found).
          case split line of
            [] \<Rightarrow> Inl (IndexError ''list index out of range'')
          | t # ts \<Rightarrow>
              ebind (convert_to_symbol env t)
                (\<lambda>symbol.
                   ebind (case found of
                            [] \<Rightarrow> Inr []
                          | g # _ \<Rightarrow> ebind (get_route_params g) (nuclei_values renv))
                     (\<lambda>current.
                        Inr (line, symbol, t # ts,
                             if upper symbol \<noteq> ''TV'' then append_nuclei_props nuclei_props current
                             else nuclei_props))))"

definition add_nuclei_props_to_params :: "pydict \<Rightarrow> nuclei_arrays \<Rightarrow> pydict" where
  "add_nuclei_props_to_params parameters nuclei_props =
     foldl (\<lambda>ps (key, vs). if (\<exists>v \<in> set vs. v \<noteq> PNone) then dict_set key (PList vs) ps else ps)
       parameters nuclei_props"

definition get_readiso_param :: "pydict \<Rightarrow> error + (string \<times> string) option" where
  \<comment> \<open>the condition \<open>'readiso' or 'readisotopes' in freq_options\<close> is the non-empty text
     \<open>'readiso'\<close>, which is true\<close>
  "get_readiso_param parameters =
     (let freq = (case map_of parameters ''freq'' of None \<Rightarrow> PNone | Some v \<Rightarrow> v);
          (freq_options, freq_name) =
            (if truthy freq then (freq, ''freq'')
             else (case map_of parameters ''frequency'' of None \<Rightarrow> PNone | Some v \<Rightarrow> v, ''frequency''))
      in if freq_options \<noteq> PNone then
           ebind (py_lower freq_options) (\<lambda>l. Inr (Some (freq_name, l)))
         else Inr None)"

fun update_in_order :: "string list \<Rightarrow> string list \<Rightarrow> pydict \<Rightarrow> pydict" where
  \<comment> \<open>the updates of \<open>_save_readiso_info\<close>, up to the first token that is missing\<close>
  "update_in_order (k # ks) (t # ts) parameters = update_in_order ks ts (dict_set k (PStr t) parameters)"
| "update_in_order ks ts parameters = parameters"

definition save_readiso_info :: "string \<Rightarrow> pydict \<Rightarrow> error + pydict" where
  "save_readiso_info line parameters =
     ebind (get_readiso_param parameters)
       (\<lambda>freq_param.
          case freq_param of
            None \<Rightarrow> Inr parameters
          | Some _ \<Rightarrow>
              Inr (update_in_order [''temperature'', ''pressure'', ''scale'']
                     (split (strip (filter (\<lambda>c. c \<noteq> CHR ''['' \<and> c \<noteq> CHR '']'') line)))
                     parameters))"

fun remove_first :: "string \<Rightarrow> string list \<Rightarrow> string list option" where
  \<comment> \<open>\<open>xs.remove(x)\<close>; \<open>None\<close> for the \<open>ValueError\<close> of an \<open>x\<close> that does not occur\<close>
  "remove_first x [] = None"
| "remove_first x (y # ys) = (if x = y then Some ys else map_option ((#) y) (remove_first x ys))"

definition delete_readiso_param :: "pydict \<Rightarrow> error + pydict" where
  "delete_readiso_param parameters =
     ebind (get_readiso_param parameters)
       (\<lambda>freq_param.
          case freq_param of
            None \<Rightarrow> Inr parameters
          | Some (freq_name, freq_options) \<Rightarrow>
              (let freq_options = lower freq_options;
                   iso_name = (if is_substring ''readisotopes'' freq_options
                               then ''readisotopes'' else ''readiso'')
               in case remove_first iso_name (map snd (runs keyword_char 0 None freq_options)) of
                    None \<Rightarrow> Inl (ValueError ''list.remove(x): x not in list'')
                  | Some opts \<Rightarrow>
                      (let new_freq_options = concat (map (\<lambda>v. v @ '' '') opts)
                       in Inr (dict_set freq_name
                                 (if new_freq_options = [] then PNone
                                  else PStr (strip new_freq_options))
                                 parameters))))"

definition unsupported_settings :: "string list" where
  "unsupported_settings = [''Z-matrix'', ''ModRedun'', ''AddRedun'', ''ReadOpt'', ''RdOpt'']"

definition validate_params :: "py_env \<Rightarrow> pydict \<Rightarrow> error + pydict" where
  \<comment> \<open>the warnings are not modelled\<close>
  "validate_params env parameters =
     (if (\<exists>s \<in> set unsupported_settings. \<exists>v \<in> set (map snd parameters).
            v \<noteq> PNone \<and> is_substring (lower s) (lower (py_str env v)))
      then Inl (IOError ''the option is currently unsupported'')
      else case filter (\<lambda>k. is_substring ''popt'' (lower k)) (map fst parameters) of
             [] \<Rightarrow> Inr parameters
           | k # _ \<Rightarrow> Inr (dict_set ''Opt'' (fst (dict_pop k parameters)) (snd (dict_pop k parameters))))"

definition read_zmatrix :: "reader_env \<Rightarrow> string \<Rightarrow> string \<Rightarrow> error + (rat list list \<times> string list)" where
  "read_zmatrix renv zmatrix_contents zmatrix_vars =
     (case parse_zmatrix renv zmatrix_contents (if zmatrix_vars \<noteq> [] then Some zmatrix_vars else None) of
        Inl (ValueError e) \<Rightarrow> Inl (IOError ''Failed to read Z-matrix from Gaussian input file'')
      | Inl (KeyError e) \<Rightarrow> Inl (IOError ''Failed to read Z-matrix from Gaussian input file'')
      | Inl e \<Rightarrow> Inl e
      | Inr r \<Rightarrow> Inr r)"

subsection \<open>The loop over the lines\<close>

text \<open>
  The local variables of \<open>parse_gaussian_input\<close>.  \<open>readiso\<close> holds \<open>False\<close>, \<open>None\<close> or a
  non-empty dictionary in the source and is only ever tested for truth: it is a boolean here.
\<close>

record parse_state =
  ps_parameters :: pydict
  ps_route_section :: bool
  ps_atoms_section :: bool
  ps_atoms_saved :: bool
  ps_readiso :: bool
  ps_count_iso :: nat
  ps_nuclei_props :: nuclei_arrays
  ps_symbols :: "string list"
  ps_positions :: "rat list list"
  ps_pbc :: "bool list"
  ps_cell :: "rat list list"
  ps_npbc :: nat
  ps_zmatrix_type :: bool
  ps_zmatrix_contents :: string
  ps_zmatrix_var_section :: bool
  ps_zmatrix_vars :: string
  ps_basis_set :: string

definition initial_state :: parse_state where
  "initial_state =
     \<lparr>ps_parameters = [], ps_route_section = False, ps_atoms_section = False,
      ps_atoms_saved = False, ps_readiso = False, ps_count_iso = 0,
      ps_nuclei_props = map (\<lambda>key. (key, [])) nuclei_prop_array_names,
      ps_symbols = [], ps_positions = [],
      ps_pbc = [False, False, False], ps_cell = [[0, 0, 0], [0, 0, 0], [0, 0, 0]], ps_npbc = 0,
      ps_zmatrix_type = False, ps_zmatrix_contents = [], ps_zmatrix_var_section = False,
      ps_zmatrix_vars = [], ps_basis_set = []\<rparr>"

text \<open>A branch of the loop body gives the new state, the new value of \<open>line\<close>, and whether
  the statements after the branches are reached (\<open>False\<close> after \<open>continue\<close>).\<close>

type_synonym branch_result = "error + (parse_state \<times> string \<times> bool)"

definition set_periodic :: "reader_env \<Rightarrow> (string list + rat list) \<Rightarrow> parse_state \<Rightarrow> error + parse_state" where
  \<comment> \<open>\<open>pbc[npbc] = True; cell[npbc] = pos; npbc += 1\<close>, where \<open>pos\<close> holds texts or floats\<close>
  "set_periodic renv pos st =
     (if 3 \<le> ps_npbc st then Inl (IndexError ''index is out of bounds for axis 0 with size 3'')
      else
        ebind (case pos of
                 Inl texts \<Rightarrow> np_row_of_strings renv texts
               | Inr xs \<Rightarrow> if length xs = 3 then Inr xs
                           else Inl (ValueError ''could not broadcast input array''))
          (\<lambda>row. Inr (st\<lparr>ps_pbc := (ps_pbc st)[ps_npbc st := True],
                           ps_cell := (ps_cell st)[ps_npbc st := row],
                           ps_npbc := Suc (ps_npbc st)\<rparr>)))"

definition freeze_code_error :: error where
  "freeze_code_error = IOError ''freeze codes are not supported''"

definition molecule_error :: error where
  "molecule_error = IOError ''Molecule specification in Gaussian input file could not be read''"

definition alternative_zmatrix_error :: error where
  "alternative_zmatrix_error =
     IOError ''the alternative Z-matrix format using two bond angles is not supported''"

definition read_position :: "reader_env \<Rightarrow> string list \<Rightarrow> error + rat list" where
  \<comment> \<open>\<open>list(map(float, pos))\<close>, a \<open>ValueError\<close> becoming an \<open>IOError\<close>\<close>
  "read_position renv pos =
     emap (\<lambda>t. case py_float renv t of None \<Rightarrow> Inl molecule_error | Some x \<Rightarrow> Inr x) pos"

definition cartesian_line ::
  "reader_env \<Rightarrow> string \<Rightarrow> string \<Rightarrow> string list \<Rightarrow> parse_state \<Rightarrow> error + parse_state" where
  \<comment> \<open>the branch \<open>if not zmatrix_type\<close> of the molecule specification\<close>
  "cartesian_line renv line symbol tokens st =
     (let pos = tl tokens
      in ebind (if length pos < 3 \<or> (take 1 pos = [''0''] \<and> symbol \<noteq> ''TV'') then
                  Inr (st\<lparr>ps_zmatrix_type := True,
                          ps_zmatrix_contents := ps_zmatrix_contents st @ strip line @ nl\<rparr>, Inl pos)
                else if 3 < length pos then Inl freeze_code_error
                else ebind (read_position renv pos) (\<lambda>xs. Inr (st, Inr xs)))
           (\<lambda>(st, pos).
              if upper symbol = ''TV'' then set_periodic renv pos st
              else if \<not> ps_zmatrix_type st then
                (case pos of
                   Inr xs \<Rightarrow> Inr (st\<lparr>ps_symbols := ps_symbols st @ [symbol],
                                      ps_positions := ps_positions st @ [xs]\<rparr>)
                 | Inl texts \<Rightarrow> Inr st)
              else Inr st))"

definition zmatrix_line :: "string \<Rightarrow> parse_state \<Rightarrow> error + parse_state" where
  \<comment> \<open>the branch \<open>else\<close>: a line of a z-matrix that has already begun\<close>
  "zmatrix_line line st =
     (let line_list = split line
      in if length line_list = 8 \<and> line_list ! 7 = ''1'' then Inl alternative_zmatrix_error
         else Inr (st\<lparr>ps_zmatrix_contents := ps_zmatrix_contents st @ strip line @ nl\<rparr>))"

definition atoms_section_branch :: "py_env \<Rightarrow> reader_env \<Rightarrow> string \<Rightarrow> parse_state \<Rightarrow> branch_result" where
  "atoms_section_branch env renv line0 st =
     (let line = replace_char CHR ''/'' CHR '' '' (takeWhile not_bang line0);
          line = replace_char CHR '','' CHR '' '' line
      in if split line = [] then Inr (st, line, True)
         else if ps_zmatrix_type st \<and> ps_zmatrix_var_section st then
           Inr (st\<lparr>ps_zmatrix_vars := ps_zmatrix_vars st @ strip line @ nl\<rparr>, line, False)
         else if ps_zmatrix_type st \<and> is_substring ''variables'' (lower line) then
           Inr (st\<lparr>ps_zmatrix_var_section := True\<rparr>, line, False)
         else if ps_zmatrix_type st \<and> is_substring ''constants'' (lower line) then
           Inr (st, line, False)
         else
           ebind (save_nuclei_props env renv line (ps_nuclei_props st))
             (\<lambda>(line, symbol, tokens, nuclei_props).
                ebind (if \<not> ps_zmatrix_type st
                       then cartesian_line renv line symbol tokens (st\<lparr>ps_nuclei_props := nuclei_props\<rparr>)
                       else zmatrix_line line (st\<lparr>ps_nuclei_props := nuclei_props\<rparr>))
                  (\<lambda>st. Inr (st\<lparr>ps_atoms_saved := True\<rparr>, line, True))))"

definition append_iso :: "pyval \<Rightarrow> pydict \<Rightarrow> error + pydict" where
  \<comment> \<open>\<open>parameters['iso'].append(v)\<close>\<close>
  "append_iso v parameters =
     (case map_of parameters ''iso'' of
        None \<Rightarrow> Inl (KeyError ''iso'')
      | Some (PList xs) \<Rightarrow> Inr (dict_set ''iso'' (PList (xs @ [v])) parameters)
      | Some _ \<Rightarrow> Inl (AttributeError ''append''))"

definition wants_basis_set :: "pydict \<Rightarrow> error + bool" where
  \<comment> \<open>\<open>parameters.get('basis', '').lower() == 'gen' or 'gen' in parameters.keys()\<close>\<close>
  "wants_basis_set parameters =
     ebind (py_lower (case map_of parameters ''basis'' of None \<Rightarrow> PStr [] | Some v \<Rightarrow> v))
       (\<lambda>b. Inr (b = ''gen'' \<or> has_key parameters ''gen''))"

definition after_molecule :: "reader_env \<Rightarrow> string \<Rightarrow> parse_state \<Rightarrow> error + parse_state" where
  \<comment> \<open>from \<open>readiso = _get_readiso_param(parameters)\<close> to the end of the branch\<close>
  "after_molecule renv line st =
     ebind (get_readiso_param (ps_parameters st))
       (\<lambda>freq_param.
          (let st = st\<lparr>ps_readiso := (freq_param \<noteq> None)\<rparr>
           in if take 1 line = ''@'' then
                Inr (st\<lparr>ps_parameters := dict_set ''basisfile'' (PStr line) (ps_parameters st)\<rparr>)
              else if ps_readiso st \<and> ps_count_iso st < length (ps_symbols st) + 1 then
                ebind (if ps_count_iso st = 0 then
                         ebind (save_readiso_info line (ps_parameters st))
                           (\<lambda>ps. Inr (dict_set ''iso'' (PList []) ps))
                       else
                         append_iso (case py_float renv line of None \<Rightarrow> PNone | Some x \<Rightarrow> PFloat x)
                           (ps_parameters st))
                  (\<lambda>ps. Inr (st\<lparr>ps_parameters := ps, ps_count_iso := Suc (ps_count_iso st)\<rparr>))
              else
                ebind (wants_basis_set (ps_parameters st))
                  (\<lambda>w. Inr (if w \<and> strip line \<noteq> []
                             then st\<lparr>ps_basis_set := ps_basis_set st @ line @ nl\<rparr> else st))))"

definition atoms_saved_branch :: "reader_env \<Rightarrow> string \<Rightarrow> parse_state \<Rightarrow> branch_result" where
  "atoms_saved_branch renv line st =
     ebind (if ps_positions st = [] \<and> ps_zmatrix_type st then
              ebind (read_zmatrix renv (ps_zmatrix_contents st) (ps_zmatrix_vars st))
                (\<lambda>(ps, ss). Inr (st\<lparr>ps_positions := ps, ps_symbols := ss\<rparr>))
            else Inr st)
       (\<lambda>st.
          if take 1 (split line) = [''!''] then Inr (st, line, False)
          else
            (let line = (if split line \<noteq> [] then takeWhile not_bang (strip line) else line)
             in ebind (after_molecule renv line st) (\<lambda>st. Inr (st, line, True))))"

definition chgmult_branch :: "string \<Rightarrow> parse_state \<Rightarrow> branch_result" where
  "chgmult_branch line st =
     (case split line of
        c # m # _ \<Rightarrow>
          ebind (py_int c)
            (\<lambda>charge. ebind (py_int m)
               (\<lambda>mult. Inr (st\<lparr>ps_parameters := dict_update (ps_parameters st)
                                                    [(''charge'', PInt charge), (''mult'', PInt mult)],
                                ps_atoms_section := True\<rparr>, line, True)))
      | [c] \<Rightarrow> ebind (py_int c) (\<lambda>charge. Inl (IndexError ''list index out of range''))
      | [] \<Rightarrow> Inl (IndexError ''list index out of range''))"

definition parse_line :: "py_env \<Rightarrow> reader_env \<Rightarrow> parse_state \<Rightarrow> string \<Rightarrow> error + parse_state" where
  \<comment> \<open>the body of \<open>for line in fd\<close>\<close>
  "parse_line env renv st line =
     ebind
       (if line = nl \<and> \<not> ps_readiso st then
          Inr (st\<lparr>ps_route_section := False, ps_atoms_section := False\<rparr>, line, True)
        else case re_link0 line of
          Some link0_match \<Rightarrow>
            Inr (st\<lparr>ps_parameters := save_link0_param link0_match (ps_parameters st)\<rparr>, line, True)
        | None \<Rightarrow>
            (case (if ps_route_section st then None else re_output_type line) of
               Some (group0, output_type) \<Rightarrow>
                 Inr (st\<lparr>ps_route_section := True,
                         ps_parameters := dict_update (ps_parameters st)
                                            [(''output_type'', PStr output_type)]\<rparr>,
                      strip_chars group0 line, True)
             | None \<Rightarrow>
                 if re_chgmult line then chgmult_branch line st
                 else if ps_atoms_section st then atoms_section_branch env renv line st
                 else if ps_atoms_saved st then atoms_saved_branch renv line st
                 else Inr (st, line, True)))
       (\<lambda>(st, line, reached).
          if reached \<and> ps_route_section st then
            ebind (save_route_params line (ps_parameters st))
              (\<lambda>ps. Inr (st\<lparr>ps_parameters := ps\<rparr>))
          else Inr st)"

fun parse_lines :: "py_env \<Rightarrow> reader_env \<Rightarrow> parse_state \<Rightarrow> string list \<Rightarrow> error + parse_state" where
  "parse_lines env renv st [] = Inr st"
| "parse_lines env renv st (line # fd) =
     ebind (parse_line env renv st line) (\<lambda>st. parse_lines env renv st fd)"

subsection \<open>After the loop\<close>

definition py_len :: "pyval \<Rightarrow> error + nat" where
  "py_len v = (case v of PList xs \<Rightarrow> Inr (length xs) | PStr s \<Rightarrow> Inr (length s)
               | _ \<Rightarrow> Inl (TypeError ''object has no len()''))"

definition fit_iso :: "nat \<Rightarrow> pydict \<Rightarrow> error + pydict" where
  \<comment> \<open>the masses are padded with \<open>None\<close> or cut to the number of symbols\<close>
  "fit_iso n parameters =
     (case map_of parameters ''iso'' of
        None \<Rightarrow> Inl (KeyError ''iso'')
      | Some iso_list \<Rightarrow>
          ebind (py_len iso_list)
            (\<lambda>l. if l < n then
                    (case iso_list of
                       PList xs \<Rightarrow> Inr (dict_set ''iso'' (PList (xs @ replicate (n - l) PNone)) parameters)
                     | _ \<Rightarrow> Inl (AttributeError ''append''))
                  else if n < l then
                    Inr (dict_set ''iso''
                           (case iso_list of PList xs \<Rightarrow> PList (take n xs) | PStr s \<Rightarrow> PStr (take n s)
                            | v \<Rightarrow> v) parameters)
                  else Inr parameters))"

definition save_basis_set :: "string \<Rightarrow> pydict \<Rightarrow> pydict" where
  "save_basis_set basis_set parameters =
     (if basis_set \<noteq> [] then
        dict_del ''gen'' (dict_set ''basis'' (PStr ''gen'')
                            (dict_set ''basis_set'' (PStr basis_set) parameters))
      else parameters)"

text \<open>
  Modelled from the toolkit (the constructor is outside the source files): \<open>Atoms(symbols,
  positions, pbc=pbc, cell=cell)\<close> raises \<open>KeyError\<close> for a symbol that is not in the element
  table and \<open>ValueError\<close> when the positions are not one triple per symbol; a new structure
  has zero initial charges and magnetic moments and the standard masses.
\<close>

definition Atoms :: "py_env \<Rightarrow> string list \<Rightarrow> rat list list \<Rightarrow> bool list \<Rightarrow> rat list list \<Rightarrow> error + atoms" where
  "Atoms env ss ps periodic vectors =
     (if \<not> list_all (\<lambda>s. s \<in> set (chemical_symbols env)) ss then Inl (KeyError ''symbol'')
      else if length ps \<noteq> length ss \<or> \<not> list_all (\<lambda>p. length p = 3) ps
      then Inl (ValueError ''Array positions has wrong shape'')
      else Inr \<lparr>symbols = ss, positions = ps, cell = vectors, pbc = periodic,
                initial_charges = map (\<lambda>s. 0) ss, initial_magmoms = map (\<lambda>s. 0) ss,
                masses = map (\<lambda>s. case expected_mass env s of None \<Rightarrow> 0 | Some m \<Rightarrow> m) ss\<rparr>)"

record GaussianConfiguration =
  get_atoms :: atoms
  get_parameters :: pydict

definition finish_parse :: "py_env \<Rightarrow> parse_state \<Rightarrow> error + GaussianConfiguration" where
  \<comment> \<open>from \<open>_validate_params(parameters)\<close> to the end of \<open>parse_gaussian_input\<close>\<close>
  "finish_parse env st =
     ebind (validate_params env (ps_parameters st))
       (\<lambda>parameters.
          ebind (if ps_readiso st then
                   ebind (delete_readiso_param parameters) (fit_iso (length (ps_symbols st)))
                 else Inr parameters)
            (\<lambda>parameters.
               (let parameters = save_basis_set (ps_basis_set st) parameters
                in case Atoms env (ps_symbols st) (ps_positions st) (ps_pbc st) (ps_cell st) of
                     Inl e \<Rightarrow> Inl (IOError ''a problem with the molecule specification'')
                   | Inr a \<Rightarrow>
                       Inr \<lparr>get_atoms = a,
                            get_parameters = add_nuclei_props_to_params parameters
                                               (ps_nuclei_props st)\<rparr>)))"

definition parse_gaussian_input :: "py_env \<Rightarrow> reader_env \<Rightarrow> string list \<Rightarrow> error + GaussianConfiguration" where
  \<comment> \<open>\<open>fd\<close> is the list of the lines that iterating over the file gives\<close>
  "parse_gaussian_input env renv fd =
     ebind (parse_lines env renv initial_state fd) (finish_parse env)"

definition read_gaussian_in :: "py_env \<Rightarrow> reader_env \<Rightarrow> string list \<Rightarrow> error + atoms" where
  \<comment> \<open>with \<open>get_calculator=False\<close>\<close>
  "read_gaussian_in env renv fd =
     ebind (parse_gaussian_input env renv fd) (\<lambda>gaussian_input. Inr (get_atoms gaussian_input))"

fun file_lines :: "string \<Rightarrow> string \<Rightarrow> string list" where
  \<comment> \<open>the lines that iterating over a text file gives, each with its newline; the first
     argument is the line read so far\<close>
  "file_lines w [] = (if w = [] then [] else [w])"
| "file_lines w (c # s) = (if c = CHR 0x0A then (w @ [c]) # file_lines [] s else file_lines (w @ [c]) s)"

subsection \<open>Example inputs\<close>

text \<open>
  An instance of the reader's environment for the examples: \<open>float\<close> on plain decimal
  numbers, a stand-in for the z-matrix converter that gives one atom at the origin per line
  of the z-matrix, and the row conversion through the same \<open>float\<close>.
\<close>

definition decimal_float :: "string \<Rightarrow> rat option" where
  "decimal_float s =
     (let t = strip s;
          u = opt_sign t;
          ip = takeWhile is_digit u;
          r = dropWhile is_digit u;
          fp = (case r of [] \<Rightarrow> [] | c # r' \<Rightarrow> if c = CHR ''.'' then takeWhile is_digit r' else []);
          rest = (case r of [] \<Rightarrow> [] | c # r' \<Rightarrow> if c = CHR ''.'' then dropWhile is_digit r' else r)
      in if (ip = [] \<and> fp = []) \<or> rest \<noteq> [] then None
         else Some ((if take 1 t = ''-'' then - 1 else 1)
                    * (of_int (int_of_digits (ip @ fp)) / 10 ^ length fp)))"

definition example_zmatrix :: "string \<Rightarrow> string option \<Rightarrow> error + (rat list list \<times> string list)" where
  "example_zmatrix contents defs =
     Inr (map (\<lambda>l. [0, 0, 0]) (file_lines [] contents),
          map (\<lambda>l. takeWhile is_alpha l) (file_lines [] contents))"

definition example_reader_env :: reader_env where
  "example_reader_env =
     \<lparr>py_float = decimal_float, parse_zmatrix = example_zmatrix,
      np_row_of_strings =
        (\<lambda>ts. if length ts = 3
               then emap (\<lambda>t. case decimal_float t of
                                 None \<Rightarrow> Inl (ValueError ''could not convert string to float'')
                               | Some x \<Rightarrow> Inr x) ts
               else Inl (ValueError ''could not broadcast input array''))\<rparr>"

text \<open>A water molecule as a z-matrix, with nothing after the blank line that ends it.\<close>

definition zmatrix_file :: "string list" where
  "zmatrix_file = [''# hf'' @ nl, nl, ''water'' @ nl, nl, ''0 1'' @ nl,
                   ''O'' @ nl, ''H 1 0.96'' @ nl, ''H 1 0.96 2 104.5'' @ nl, nl]"

text \<open>A frequency job with the option \<open>noraman\<close> and a basis set given after the molecule.\<close>

definition freq_file :: "string list" where
  "freq_file = [''# hf freq=noraman gen'' @ nl, nl, ''hydrogen'' @ nl, nl, ''0 2'' @ nl,
                ''H 0.0 0.0 0.0'' @ nl, nl, ''H 0'' @ nl, ''S 1 1.0'' @ nl]"

text \<open>A \<open>ReadIsotopes\<close> job whose molecule has a cartesian line with a mass and a line with
  fewer than three coordinates.\<close>

definition mixed_file :: "string list" where
  "mixed_file = [''# hf freq=readiso'' @ nl, nl, ''title'' @ nl, nl, ''0 1'' @ nl,
                 ''H(iso=2) 0.0 0.0 0.0'' @ nl, ''H 1'' @ nl, nl, ''300 1.0'' @ nl]"


subsection \<open>The reader on the example files\<close>

lemma get_readiso_param_any_option:
  assumes "map_of parameters ''freq'' = Some (PStr s)" and "s \<noteq> []"
  shows "get_readiso_param parameters = Inr (Some (''freq'', lower s))"
  using assms by (simp add: get_readiso_param_def truthy_def py_lower_def ebind_def)

text \<open>
  Claim C3 at its failing input.  The route section holds \<open>freq=noraman\<close>, with neither
  \<open>readiso\<close> nor \<open>readisotopes\<close> among the options, and still the two lines of the basis set
  after the molecule are read as a \<open>ReadIsotopes\<close> section: the first gives \<open>temperature\<close> and
  \<open>pressure\<close>, the second a mass.  After the loop the option that is to be removed is not
  found, and the call ends in a \<open>ValueError\<close>.
\<close>

theorem readiso_section_without_readiso_option:
  "(case parse_lines example_py_env example_reader_env initial_state freq_file of
      Inl e \<Rightarrow> False
    | Inr st \<Rightarrow>
        ps_readiso st
        \<and> map_of (ps_parameters st) ''freq'' = Some (PStr ''noraman'')
        \<and> map_of (ps_parameters st) ''temperature'' = Some (PStr ''H'')
        \<and> map_of (ps_parameters st) ''pressure'' = Some (PStr ''0'')
        \<and> map_of (ps_parameters st) ''iso'' = Some (PList [PNone]))
   \<and> parse_gaussian_input example_py_env example_reader_env freq_file
       = Inl (ValueError ''list.remove(x): x not in list'')"
  by code_simp

lemma fit_iso_list:
  assumes "map_of parameters ''iso'' = Some (PList masses_read)"
  shows "\<exists>ps. fit_iso n parameters = Inr ps
           \<and> map_of ps ''iso'' = Some (PList (take n (masses_read @ replicate (n - length masses_read) PNone)))"
proof -
  have k: "has_key parameters ''iso''" using assms by (simp add: has_key_def)
  have m: "map_of (dict_set ''iso'' v parameters) ''iso'' = Some v" for v
    using k by (induction parameters) (auto simp: dict_set_def has_key_def split: if_splits)
  show ?thesis
    using assms m by (auto simp: fit_iso_def py_len_def ebind_def)
qed

text \<open>
  Claim C8 at its failing input.  A \<open>ReadIsotopes\<close> section is read and the parse finishes,
  and the \<open>iso\<close> parameter that is returned has two entries for one symbol: the list that was
  fitted to the symbols is replaced by the list of the masses given in parentheses in
  the molecule specification, which has an entry for every line of it.
\<close>

theorem iso_length_differs:
  "(case parse_lines example_py_env example_reader_env initial_state mixed_file of
      Inl e \<Rightarrow> False
    | Inr st \<Rightarrow> ps_readiso st \<and> map_of (ps_parameters st) ''iso'' = Some (PList []))
   \<and> (case parse_gaussian_input example_py_env example_reader_env mixed_file of
        Inl e \<Rightarrow> False
      | Inr c \<Rightarrow> symbols (get_atoms c) = [''H'']
                \<and> map_of (get_parameters c) ''iso'' = Some (PList [PInt 2, PNone]))"
  by code_simp

lemma zmatrix_line_alternative:
  assumes "length (split line) = 8" and "split line ! 7 = ''1''"
  shows "zmatrix_line line st = Inl alternative_zmatrix_error"
  using assms by (simp add: zmatrix_line_def)

text \<open>
  Claim C4 at its failing input.  The molecule is a z-matrix and the file ends with the
  blank line after it.  Whatever the z-matrix converter is, it is never called: the parse
  finishes with a structure without atoms.
\<close>

theorem zmatrix_not_converted:
  "parse_gaussian_input example_py_env renv zmatrix_file =
     Inr \<lparr>get_atoms = \<lparr>symbols = [], positions = [], cell = [[0, 0, 0], [0, 0, 0], [0, 0, 0]],
                        pbc = [False, False, False], initial_charges = [], initial_magmoms = [],
                        masses = []\<rparr>,
          get_parameters = [(''output_type'', PStr []), (''hf'', PNone), (''charge'', PInt 0),
                            (''mult'', PInt 1)]\<rparr>"
  by code_simp


subsection \<open>Lines that set one keyword\<close>







subsection \<open>One line of the Link0 and route sections\<close>








lemma lower_nl: "lower (s @ nl) = lower s @ nl"
  by (simp add: lower_def nl_def lower_char_def)


lemma is_space_nl [simp]: "list_all is_space nl" and nl_not_Nil [simp]: "nl \<noteq> []"
  by (simp_all add: nl_def is_space_def)





lemma lower_Cons: "lower (c # s) = lower_char c # lower s" and lower_append: "lower (s @ t) = lower s @ lower t"
  and lower_nl_eq: "lower nl = nl"
  by (simp_all add: lower_def nl_def lower_char_def)







lemma last_append_nl: "last (s @ nl) = CHR 0x0A" by (simp add: nl_def)











lemma dict_update_single: "dict_update d [(k, v)] = dict_set k v d"
  by simp




lemma lower_no_eq: "CHR ''='' \<notin> set kw \<Longrightarrow> CHR ''='' \<in> set s \<longleftrightarrow> CHR ''='' \<in> set s"
  by simp


















lemma comment_text:
  "takeWhile (\<lambda>x. x \<noteq> CHR 0x0A) ('' ASE formatted method and basis'' @ nl) = '' ASE formatted method and basis''"
  by (simp add: nl_def)









end
